theory Spec2Isabelle
  imports Main
begin

section \<open>Go standard-library path and string helpers\<close>

text \<open>
  The renderer of \<^verbatim>\<open>d2cli/main.go\<close> builds output paths with
  \<^verbatim>\<open>filepath.Ext\<close>, \<^verbatim>\<open>strings.TrimSuffix\<close>, \<^verbatim>\<open>filepath.Join\<close>
  and \<^verbatim>\<open>strings.Join\<close>. They belong to the Go standard library; they are modelled
  here after their Unix implementations, on byte strings (\<open>string\<close> is \<open>char list\<close>).
\<close>

type_synonym bytes = string

text \<open>\<^verbatim>\<open>strings.Join(elems, sep)\<close>.\<close>

fun strings_Join :: "string list \<Rightarrow> string \<Rightarrow> string" where
  "strings_Join [] sep = []"
| "strings_Join [e] sep = e"
| "strings_Join (e # es) sep = e @ sep @ strings_Join es sep"

text \<open>\<^verbatim>\<open>strings.HasSuffix\<close> and \<^verbatim>\<open>strings.TrimSuffix\<close>.\<close>

definition strings_HasSuffix :: "string \<Rightarrow> string \<Rightarrow> bool" where
  "strings_HasSuffix s suffix =
     (length suffix \<le> length s \<and> drop (length s - length suffix) s = suffix)"

definition strings_TrimSuffix :: "string \<Rightarrow> string \<Rightarrow> string" where
  "strings_TrimSuffix s suffix =
     (if strings_HasSuffix s suffix then take (length s - length suffix) s else s)"

text \<open>
  \<^verbatim>\<open>filepath.Ext(path)\<close>: scan from the last byte towards the front, stop at a path
  separator, return the suffix that starts at the first dot met. \<open>Ext_scan\<close> is the
  loop; its first argument is the part of the path not yet scanned, reversed, its second
  the bytes already passed.
\<close>

fun Ext_scan :: "string \<Rightarrow> string \<Rightarrow> string" where
  "Ext_scan [] seen = []"
| "Ext_scan (c # front) seen =
     (if c = CHR ''/'' then []
      else if c = CHR ''.'' then c # seen
      else Ext_scan front (c # seen))"

definition filepath_Ext :: "string \<Rightarrow> string" where
  "filepath_Ext path = Ext_scan (rev path) []"

text \<open>
  \<^verbatim>\<open>filepath.Clean(path)\<close>, Unix: \<open>Clean_loop\<close> is the main loop, reading the rest of
  the path and writing to the buffer \<open>out\<close>; \<open>dotdot\<close> is the index in the buffer
  where a \<^verbatim>\<open>..\<close> element must stop. \<open>Clean_back\<close> is the inner loop that moves the
  write index back to the previous separator.
\<close>

fun Clean_back :: "string \<Rightarrow> nat \<Rightarrow> nat \<Rightarrow> nat" where
  "Clean_back buf dotdot 0 = 0"
| "Clean_back buf dotdot (Suc w) =
     (if Suc w > dotdot \<and> buf ! Suc w \<noteq> CHR ''/'' then Clean_back buf dotdot w else Suc w)"

function Clean_loop :: "bool \<Rightarrow> string \<Rightarrow> string \<Rightarrow> nat \<Rightarrow> string" where
  "Clean_loop rooted [] out dotdot = out"
| "Clean_loop rooted (c # rest) out dotdot =
     (if c = CHR ''/'' then Clean_loop rooted rest out dotdot
      else if c = CHR ''.'' \<and> (rest = [] \<or> hd rest = CHR ''/'') then
        Clean_loop rooted rest out dotdot
      else if c = CHR ''.'' \<and> hd rest = CHR ''.'' \<and> (tl rest = [] \<or> hd (tl rest) = CHR ''/'') then
        (if length out > dotdot then
           Clean_loop rooted (tl rest) (take (Clean_back out dotdot (length out - 1)) out) dotdot
         else if \<not> rooted then
           Clean_loop rooted (tl rest)
             ((if length out > 0 then out @ ''/'' else out) @ ''..'')
             (length ((if length out > 0 then out @ ''/'' else out) @ ''..''))
         else Clean_loop rooted (tl rest) out dotdot)
      else
        Clean_loop rooted (dropWhile (\<lambda>x. x \<noteq> CHR ''/'') (c # rest))
          ((if (rooted \<and> length out \<noteq> 1) \<or> (\<not> rooted \<and> length out \<noteq> 0)
            then out @ ''/'' else out) @ takeWhile (\<lambda>x. x \<noteq> CHR ''/'') (c # rest))
          dotdot)"
  by pat_completeness auto
termination
proof (relation "measure (\<lambda>(rooted, path, out, dotdot). length path)")
  show "wf (measure (\<lambda>(rooted, path, out, dotdot). length path))" by simp
next
  fix rooted :: bool and c :: char and rest out :: string and dotdot :: nat
  assume "c \<noteq> CHR ''/''"
  then have "length (dropWhile (\<lambda>x. x \<noteq> CHR ''/'') (c # rest)) \<le> length rest"
    by (simp add: length_dropWhile_le)
  then show "((rooted, dropWhile (\<lambda>x. x \<noteq> CHR ''/'') (c # rest),
        (if (rooted \<and> length out \<noteq> 1) \<or> (\<not> rooted \<and> length out \<noteq> 0)
            then out @ ''/'' else out) @ takeWhile (\<lambda>x. x \<noteq> CHR ''/'') (c # rest), dotdot),
       (rooted, c # rest, out, dotdot))
      \<in> measure (\<lambda>(rooted, path, out, dotdot). length path)"
    by simp
qed auto

definition filepath_Clean :: "string \<Rightarrow> string" where
  "filepath_Clean path =
     (if path = [] then ''.''
      else let rooted = (hd path = CHR ''/'');
               out = Clean_loop rooted (if rooted then tl path else path)
                       (if rooted then ''/'' else []) (if rooted then 1 else 0)
           in if out = [] then ''.'' else out)"

text \<open>
  \<^verbatim>\<open>filepath.Join(a, b)\<close> for two elements: the elements from the first non-empty one
  on are joined with the separator and cleaned; when both are empty the result is empty.
\<close>

definition filepath_Join :: "string \<Rightarrow> string \<Rightarrow> string" where
  "filepath_Join a b =
     (if a \<noteq> [] then filepath_Clean (strings_Join [a, b] ''/'')
      else if b \<noteq> [] then filepath_Clean (strings_Join [b] ''/'')
      else [])"

text \<open>\<^verbatim>\<open>filepath.Dir\<close> and \<^verbatim>\<open>filepath.Base\<close>, Unix.\<close>

definition filepath_Dir :: "string \<Rightarrow> string" where
  "filepath_Dir path = filepath_Clean (rev (dropWhile (\<lambda>x. x \<noteq> CHR ''/'') (rev path)))"

definition filepath_Base :: "string \<Rightarrow> string" where
  "filepath_Base path =
     (if path = [] then ''.''
      else let p = rev (dropWhile (\<lambda>x. x = CHR ''/'') (rev path));
               b = rev (takeWhile (\<lambda>x. x \<noteq> CHR ''/'') (rev p))
           in if b = [] then ''/'' else b)"

section \<open>The board tree\<close>

text \<open>
  \<^verbatim>\<open>d2target.Diagram\<close> and \<^verbatim>\<open>d2target.Shape\<close> are declared outside the two
  source files; the fields below are the ones \<^verbatim>\<open>d2cli/main.go\<close> reads or writes:
  a shape's position, size, stroke width and \<open>Link\<close>; a board's \<open>Name\<close>,
  \<open>IsFolderOnly\<close>, \<open>Shapes\<close>, root fill (\<^verbatim>\<open>diagram.Root.Fill\<close>) and the three
  ordered child sequences. The Go boards are reached through pointers; the compiled
  boards form a tree (no board is the child of two boards), which the datatype expresses.
\<close>

record shape =
  Pos :: "int \<times> int"
  Width :: int
  Height :: int
  StrokeWidth :: int
  Link :: string

datatype diagram =
  Diagram (Name: string) (IsFolderOnly: bool) (Shapes: "shape list") (RootFill: string)
          (Layers: "diagram list") (Scenarios: "diagram list") (Steps: "diagram list")

text \<open>Go's \<open>error\<close> values: one error with its message, or a \<^verbatim>\<open>multierr\<close> aggregate.\<close>

datatype error = Error string | MultiError "error list"

section \<open>Link resolution: \<^verbatim>\<open>resolveLinks\<close>\<close>

text \<open>
  The four statements
  \<^verbatim>\<open>ext := filepath.Ext(p); p = strings.TrimSuffix(p, ext); p = filepath.Join(p, seg); p += ext\<close>
  occur five times in \<^verbatim>\<open>resolveLinks\<close> (and five times in \<^verbatim>\<open>render\<close>);
  \<open>nestPath p seg\<close> is that block.
\<close>

definition nestPath :: "string \<Rightarrow> string \<Rightarrow> string" where
  "nestPath p seg =
     (let ext = filepath_Ext p;
          p1 = strings_TrimSuffix p ext;
          p2 = filepath_Join p1 seg
      in p2 @ ext)"

type_synonym linkmap = "string \<rightharpoonup> string"

text \<open>
  \<^verbatim>\<open>resolveLinks(currDiagramPath, outputPath, diagram)\<close> returns a map and an error;
  the model returns \<open>Inl err\<close> for a non-nil error and \<open>Inr linkToOutput\<close> otherwise.
  \<open>resolveLinks_children\<close> is one of the three \<^verbatim>\<open>for _, dl := range ...\<close> loops:
  \<open>category\<close> is the literal \<^verbatim>\<open>"layers"\<close>, \<^verbatim>\<open>"scenarios"\<close> or \<^verbatim>\<open>"steps"\<close>,
  \<open>childOutputPath\<close> the category's base path and \<open>linkToOutput\<close> the map built so
  far; the inner loop \<^verbatim>\<open>for k, v := range m { linkToOutput[k] = v }\<close> is \<open>++\<close>.
\<close>

fun resolveLinks :: "string \<Rightarrow> string \<Rightarrow> diagram \<Rightarrow> error + linkmap"
and resolveLinks_children ::
  "string \<Rightarrow> string \<Rightarrow> string \<Rightarrow> diagram list \<Rightarrow> linkmap \<Rightarrow> error + linkmap"
where
  "resolveLinks currDiagramPath outputPath0 (Diagram name folderOnly shapes fill layers scenarios steps) =
     (let outputPath = (if name \<noteq> [] then nestPath outputPath0 name else outputPath0);
          boardOutputPath =
            (if length layers > 0 \<or> length scenarios > 0 \<or> length steps > 0
             then nestPath outputPath ''index'' else outputPath);
          layersOutputPath =
            (if length scenarios > 0 \<or> length steps > 0
             then nestPath outputPath ''layers'' else outputPath);
          scenariosOutputPath =
            (if length layers > 0 \<or> length steps > 0
             then nestPath outputPath ''scenarios'' else outputPath);
          stepsOutputPath =
            (if length layers > 0 \<or> length scenarios > 0
             then nestPath outputPath ''steps'' else outputPath);
          linkToOutput = [currDiagramPath \<mapsto> boardOutputPath]
      in case resolveLinks_children currDiagramPath ''layers'' layersOutputPath layers linkToOutput of
           Inl err \<Rightarrow> Inl err
         | Inr linkToOutput1 \<Rightarrow>
        (case resolveLinks_children currDiagramPath ''scenarios'' scenariosOutputPath scenarios
                linkToOutput1 of
           Inl err \<Rightarrow> Inl err
         | Inr linkToOutput2 \<Rightarrow>
        (case resolveLinks_children currDiagramPath ''steps'' stepsOutputPath steps linkToOutput2 of
           Inl err \<Rightarrow> Inl err
         | Inr linkToOutput3 \<Rightarrow> Inr linkToOutput3)))"
| "resolveLinks_children currDiagramPath category childOutputPath [] linkToOutput = Inr linkToOutput"
| "resolveLinks_children currDiagramPath category childOutputPath (dl # dls) linkToOutput =
     (case resolveLinks (strings_Join [currDiagramPath, category, Name dl] ''.'') childOutputPath dl of
        Inl err \<Rightarrow> Inl err
      | Inr m \<Rightarrow>
          resolveLinks_children currDiagramPath category childOutputPath dls (linkToOutput ++ m))"

section \<open>Link rewriting: \<^verbatim>\<open>relink\<close>\<close>

text \<open>
  The loop over \<^verbatim>\<open>linkToOutput\<close> assigns \<open>v\<close> for the key equal to the shape's link
  and breaks; a map has at most one such key, so the loop is a lookup. Shapes with an
  empty link are skipped. The Go function updates the boards in place; the model returns
  the updated tree.
\<close>

definition relink_shape :: "linkmap \<Rightarrow> shape \<Rightarrow> shape" where
  "relink_shape linkToOutput shape =
     (if Link shape \<noteq> [] then
        (case linkToOutput (Link shape) of
           Some v \<Rightarrow> shape\<lparr>Link := v\<rparr>
         | None \<Rightarrow> shape)
      else shape)"

fun relink :: "diagram \<Rightarrow> linkmap \<Rightarrow> diagram" where
  "relink (Diagram name folderOnly shapes fill layers scenarios steps) linkToOutput =
     Diagram name folderOnly (map (relink_shape linkToOutput) shapes) fill
       (map (\<lambda>board. relink board linkToOutput) layers)
       (map (\<lambda>board. relink board linkToOutput) scenarios)
       (map (\<lambda>board. relink board linkToOutput) steps)"

section \<open>Pagination indices: \<^verbatim>\<open>buildBoardIdToIndex\<close>\<close>

text \<open>
  The dictionary is a Go map, shared by all recursive calls and updated in place; the
  model passes it along and returns it. A nil dictionary is \<open>None\<close>.
  \<^verbatim>\<open>len(dictionary)\<close> is the number of keys. \<open>buildBoardIdToIndex_children\<close> is
  one of the three loops over the children, \<open>childPath\<close> being
  \<^verbatim>\<open>append(newPath, "layers")\<close> (or scenarios, steps). In Go the appended
  slices may share their backing array; every call joins its key from \<^verbatim>\<open>newPath\<close>
  before anything is appended again, and later appends only write behind the end of
  \<^verbatim>\<open>newPath\<close>, so the keys are those of the lists below. In
  \<^verbatim>\<open>dictionary[key] = len(dictionary)\<close> the length is taken before the assignment.
\<close>

type_synonym dictionary = "string \<rightharpoonup> int"

fun buildBoardIdToIndex :: "diagram \<Rightarrow> dictionary option \<Rightarrow> string list \<Rightarrow> dictionary"
and buildBoardIdToIndex_children ::
  "diagram list \<Rightarrow> dictionary \<Rightarrow> string list \<Rightarrow> dictionary"
where
  "buildBoardIdToIndex (Diagram name folderOnly shapes fill layers scenarios steps) dictionary0 path =
     (let newPath0 = path @ [name];
          dictionary = (case dictionary0 of None \<Rightarrow> Map.empty | Some d \<Rightarrow> d);
          newPath = (case dictionary0 of None \<Rightarrow> newPath0[0 := ''root''] | Some d \<Rightarrow> newPath0);
          key = strings_Join newPath ''.'';
          dictionary1 = dictionary(key \<mapsto> int (card (dom dictionary)));
          dictionary2 = buildBoardIdToIndex_children layers dictionary1 (newPath @ [''layers'']);
          dictionary3 = buildBoardIdToIndex_children scenarios dictionary2 (newPath @ [''scenarios'']);
          dictionary4 = buildBoardIdToIndex_children steps dictionary3 (newPath @ [''steps''])
      in dictionary4)"
| "buildBoardIdToIndex_children [] dictionary childPath = dictionary"
| "buildBoardIdToIndex_children (dl # dls) dictionary childPath =
     buildBoardIdToIndex_children dls (buildBoardIdToIndex dl (Some dictionary) childPath) childPath"

section \<open>Collaborators, options and the outside world\<close>

text \<open>
  \<^verbatim>\<open>multierr.Combine\<close> (package \<^verbatim>\<open>go.uber.org/multierr\<close>): nil errors are dropped,
  aggregates are flattened; no error left is nil, a single one is returned as it is,
  several become one aggregate.
\<close>

fun multierr_errors :: "error option \<Rightarrow> error list" where
  "multierr_errors None = []"
| "multierr_errors (Some (MultiError es)) = es"
| "multierr_errors (Some (Error msg)) = [Error msg]"

definition multierr_Combine :: "error option \<Rightarrow> error option \<Rightarrow> error option" where
  "multierr_Combine e1 e2 =
     (case multierr_errors e1 @ multierr_errors e2 of
        [] \<Rightarrow> None
      | [e] \<Rightarrow> Some e
      | e # e' # es \<Rightarrow> Some (MultiError (e # e' # es)))"

text \<open>\<^verbatim>\<open>d2svg.RenderOpts\<close>, with the fields that \<^verbatim>\<open>d2cli/main.go\<close> sets.\<close>

record renderOpts =
  Pad :: int
  Sketch :: bool
  Center :: bool
  ThemeID :: int
  DarkThemeID :: "int option"
  MasterID :: string
  SetDimensions :: bool

text \<open>
  A page handed to \<^verbatim>\<open>pdf.AddPDFPage\<close> (its arguments), and a slide of the
  presentation: the image, the board path used as title, and for every shape with a
  link the tooltip, the external URL and the slide index (0 when not set). The
  rectangle of a link is computed in floating point from the shape's geometry and the
  viewbox; it is left out. The parsed viewbox coordinates are kept as their text.
\<close>

record pdfPage =
  page_pngImg :: bytes
  page_boardPath :: "string list"
  page_themeID :: int
  page_rootFill :: string
  page_shapes :: "shape list"
  page_pad :: int
  page_viewboxX :: string
  page_viewboxY :: string

record pptxLink =
  Tooltip :: string
  ExternalUrl :: string
  SlideIndex :: int

record pptxSlide =
  slide_pngImg :: bytes
  slide_boardPath :: "string list"
  slide_links :: "pptxLink list"

text \<open>
  The functions that \<^verbatim>\<open>d2cli/main.go\<close> calls in other packages are parameters of
  the model. A Go function returning \<^verbatim>\<open>(value, error)\<close> is a function returning a
  pair whose second component is \<open>None\<close> for a nil error. File-system and document
  calls are given by their outcome (the error they return); their effect on success is
  written out in the model.
  \<open>parsesAsRootKey\<close> stands for the test
  \<^verbatim>\<open>err == nil && key.Path[0].Unbox().ScalarString() == "root"\<close> on the result of
  \<^verbatim>\<open>d2parser.ParseKey(shape.Link)\<close>.
\<close>

record collaborators =
  ReadPath :: "string \<Rightarrow> bytes \<times> error option"
  NewRuler :: "error option"
  d2lib_Compile :: "bytes \<Rightarrow> diagram \<times> error option"
  HashID :: "diagram \<Rightarrow> string \<times> error option"
  plugin_Info :: "error option"
  FeatureSupportCheck :: "bytes \<Rightarrow> error option"
  d2svg_Render :: "diagram \<Rightarrow> renderOpts \<Rightarrow> bytes \<times> error option"
  PostProcess :: "bytes \<Rightarrow> bytes \<times> error option"
  BundleLocal :: "bytes \<Rightarrow> bytes \<times> error option"
  BundleRemote :: "bytes \<Rightarrow> bytes \<times> error option"
  appendix_Append :: "diagram \<Rightarrow> bytes \<Rightarrow> bytes"
  ConvertSVG :: "bytes \<Rightarrow> bytes \<times> error option"
  AddExif :: "bytes \<Rightarrow> bytes \<times> error option"
  d2animate_Wrap :: "diagram \<Rightarrow> bytes list \<Rightarrow> renderOpts \<Rightarrow> int \<Rightarrow> bytes \<times> error option"
  MkdirAll :: "string \<Rightarrow> error option"
  WriteFile :: "string \<Rightarrow> bytes \<Rightarrow> error option"
  FindViewboxSlice :: "bytes \<Rightarrow> string list"
  ParseFloat :: "string \<Rightarrow> error option"
  AddPDFPage :: "pdfPage \<Rightarrow> error option"
  pdf_Export :: "string \<Rightarrow> pdfPage list \<Rightarrow> bytes \<times> error option"
  AddSlide :: "bytes \<Rightarrow> string list \<Rightarrow> error option"
  parsesAsRootKey :: "string \<Rightarrow> bool"
  SaveTo :: "string \<Rightarrow> pptxSlide list \<Rightarrow> bytes \<times> error option"

text \<open>
  The world outside the process: the files by path, what was written to standard
  output, and the record of the calls of \<^verbatim>\<open>pdf.Export\<close> and
  \<^verbatim>\<open>Presentation.SaveTo\<close> (the path of each call, successful or not).
\<close>

record world =
  files :: "string \<rightharpoonup> bytes"
  stdout :: bytes
  exportCalls :: "string list"

text \<open>
  \<^verbatim>\<open>ms.WritePath(fp, p)\<close> (package \<^verbatim>\<open>xmain\<close>): the path \<^verbatim>\<open>-\<close> is standard
  output, any other path a file that is created or replaced.
\<close>

definition WritePath :: "collaborators \<Rightarrow> string \<Rightarrow> bytes \<Rightarrow> world \<Rightarrow> error option \<times> world" where
  "WritePath env fp p w =
     (case WriteFile env fp p of
        Some err \<Rightarrow> (Some err, w)
      | None \<Rightarrow>
          if fp = ''-'' then (None, w\<lparr>stdout := stdout w @ p\<rparr>)
          else (None, w\<lparr>files := (files w)(fp \<mapsto> p)\<rparr>))"

text \<open>
  \<^verbatim>\<open>os.RemoveAll(path)\<close>: the file at the path and every file below it are gone
  afterwards. The source ignores its error.
\<close>

definition os_RemoveAll :: "string \<Rightarrow> world \<Rightarrow> world" where
  "os_RemoveAll path w =
     w\<lparr>files := (\<lambda>fp. if fp = path \<or> take (length path + 1) fp = path @ ''/'' then None
                        else files w fp)\<rparr>"

text \<open>Indexing a slice: out of range, Go panics; the panic is the error \<open>indexPanic\<close>.\<close>

definition indexPanic :: error where
  "indexPanic = Error ''panic: runtime error: index out of range''"

section \<open>Rendering one board: \<^verbatim>\<open>_render\<close>\<close>

text \<open>
  \<open>render_board\<close> is the Go function \<^verbatim>\<open>_render\<close>. \<open>render_board_write\<close> is its
  last part, from \<^verbatim>\<open>if opts.MasterID == ""\<close> on, which both branches of
  \<^verbatim>\<open>if toPNG\<close> reach: \<open>svg\<close> is the function's variable of that name, \<open>out\<close> the
  bytes to write and \<open>bundleErr\<close> the aggregate of the bundling errors.
\<close>

definition render_board_write ::
  "collaborators \<Rightarrow> renderOpts \<Rightarrow> string \<Rightarrow> bytes \<Rightarrow> bytes \<Rightarrow> error option \<Rightarrow> world
     \<Rightarrow> (bytes \<times> error option) \<times> world" where
  "render_board_write env opts outputPath svg out bundleErr w =
     (if MasterID opts = [] then
        (case MkdirAll env (filepath_Dir outputPath) of
           Some err \<Rightarrow> ((svg, Some err), w)
         | None \<Rightarrow>
             (case WritePath env outputPath out w of
                (Some err, w') \<Rightarrow> ((svg, Some err), w')
              | (None, w') \<Rightarrow>
                  if bundleErr \<noteq> None then ((svg, bundleErr), w') else ((svg, None), w')))
      else if bundleErr \<noteq> None then ((svg, bundleErr), w) else ((svg, None), w))"

definition render_board ::
  "collaborators \<Rightarrow> renderOpts \<Rightarrow> string \<Rightarrow> bool \<Rightarrow> bool \<Rightarrow> diagram \<Rightarrow> world
     \<Rightarrow> (bytes \<times> error option) \<times> world" where
  "render_board env opts outputPath bundle forceAppendix diagram w =
     (let toPNG = (filepath_Ext outputPath = ''.png'');
          (svg0, err0) = d2svg_Render env diagram
             \<lparr>Pad = Pad opts, Sketch = Sketch opts, Center = Center opts, ThemeID = ThemeID opts,
              DarkThemeID = DarkThemeID opts, MasterID = MasterID opts, SetDimensions = toPNG\<rparr>
      in if err0 \<noteq> None then (([], err0), w)
         else
           let (svg1, err1) = PostProcess env svg0
           in if err1 \<noteq> None then ((svg1, err1), w)
              else
                let (svg2, bundleErr1) = BundleLocal env svg1;
                    (svg3, bundleErr2) =
                      (if bundle
                       then (fst (BundleRemote env svg2),
                             multierr_Combine bundleErr1 (snd (BundleRemote env svg2)))
                       else (svg2, bundleErr1));
                    svg = (if forceAppendix \<and> \<not> toPNG then appendix_Append env diagram svg3 else svg3)
                in if toPNG then
                     let svgA = appendix_Append env diagram svg;
                         (svgB, bundleErr3) =
                           (if \<not> bundle
                            then (fst (BundleRemote env svgA),
                                  multierr_Combine bundleErr2 (snd (BundleRemote env svgA)))
                            else (svgA, bundleErr2));
                         (out1, errC) = ConvertSVG env svgB
                     in if errC \<noteq> None then ((svgB, errC), w)
                        else
                          let (out2, errE) = AddExif env out1
                          in if errE \<noteq> None then ((svgB, errE), w)
                             else render_board_write env opts outputPath svg out2 bundleErr3 w
                   else
                     let out = (if length svg > 0 \<and> last svg \<noteq> CHR 0x0A
                                then svg @ [CHR 0x0A] else svg)
                     in render_board_write env opts outputPath svg out bundleErr2 w)"

section \<open>The hierarchical renderer: \<^verbatim>\<open>render\<close>\<close>

text \<open>
  \<^verbatim>\<open>render\<close> returns the rendered buffers and an error. \<open>render_children\<close> is one of
  the three loops over the children: \<open>boards\<close> is the list accumulated so far; when a
  child fails the loop ends with that error (and \<^verbatim>\<open>render\<close> returns
  \<^verbatim>\<open>nil, err\<close>). A nil slice is the empty list.
\<close>

definition multiboardStdout :: error where
  "multiboardStdout = Error ''multiboard output cannot be written to stdout''"

fun render ::
  "collaborators \<Rightarrow> renderOpts \<Rightarrow> string \<Rightarrow> bool \<Rightarrow> bool \<Rightarrow> diagram \<Rightarrow> world
     \<Rightarrow> (bytes list \<times> error option) \<times> world"
and render_children ::
  "collaborators \<Rightarrow> renderOpts \<Rightarrow> string \<Rightarrow> bool \<Rightarrow> bool \<Rightarrow> diagram list \<Rightarrow> bytes list \<Rightarrow> world
     \<Rightarrow> (bytes list \<times> error option) \<times> world"
where
  "render env opts outputPath0 bundle forceAppendix
      (Diagram name folderOnly shapes fill layers scenarios steps) w =
     (let outputPath = (if name \<noteq> [] then nestPath outputPath0 name else outputPath0);
          hasChildren = (length layers > 0 \<or> length scenarios > 0 \<or> length steps > 0)
      in if hasChildren \<and> outputPath = ''-'' then (([], Some multiboardStdout), w)
         else
           let boardOutputPath = (if hasChildren then nestPath outputPath ''index'' else outputPath);
               w0 = (if hasChildren
                     then os_RemoveAll (strings_TrimSuffix outputPath (filepath_Ext outputPath)) w
                     else w);
               layersOutputPath =
                 (if length scenarios > 0 \<or> length steps > 0
                  then nestPath outputPath ''layers'' else outputPath);
               scenariosOutputPath =
                 (if length layers > 0 \<or> length steps > 0
                  then nestPath outputPath ''scenarios'' else outputPath);
               stepsOutputPath =
                 (if length layers > 0 \<or> length scenarios > 0
                  then nestPath outputPath ''steps'' else outputPath)
           in case render_children env opts layersOutputPath bundle forceAppendix layers [] w0 of
                ((boards1, Some err), w1) \<Rightarrow> (([], Some err), w1)
              | ((boards1, None), w1) \<Rightarrow>
             (case render_children env opts scenariosOutputPath bundle forceAppendix scenarios
                     boards1 w1 of
                ((boards2, Some err), w2) \<Rightarrow> (([], Some err), w2)
              | ((boards2, None), w2) \<Rightarrow>
             (case render_children env opts stepsOutputPath bundle forceAppendix steps boards2 w2 of
                ((boards3, Some err), w3) \<Rightarrow> (([], Some err), w3)
              | ((boards3, None), w3) \<Rightarrow>
                  if \<not> folderOnly then
                    (case render_board env opts boardOutputPath bundle forceAppendix
                            (Diagram name folderOnly shapes fill layers scenarios steps) w3 of
                       ((out, Some err), w4) \<Rightarrow> ((boards3, Some err), w4)
                     | ((out, None), w4) \<Rightarrow> ((out # boards3, None), w4))
                  else (([], None), w3))))"
| "render_children env opts childOutputPath bundle forceAppendix [] boards w = ((boards, None), w)"
| "render_children env opts childOutputPath bundle forceAppendix (dl # dls) boards w =
     (case render env opts childOutputPath bundle forceAppendix dl w of
        ((childrenBoards, Some err), w') \<Rightarrow> ((boards, Some err), w')
      | ((childrenBoards, None), w') \<Rightarrow>
          render_children env opts childOutputPath bundle forceAppendix dls
            (boards @ childrenBoards) w')"

section \<open>Paginated documents: \<^verbatim>\<open>renderPDF\<close> and \<^verbatim>\<open>renderPPTX\<close>\<close>

definition getFileName :: "string \<Rightarrow> string" where
  "getFileName path =
     (let ext = filepath_Ext path in strings_TrimSuffix (filepath_Base path) ext)"

text \<open>
  \<open>renderPDF_page\<close> is the block \<^verbatim>\<open>if !diagram.IsFolderOnly { ... }\<close> of
  \<^verbatim>\<open>renderPDF\<close>. It returns the values that a \<^verbatim>\<open>return\<close> inside the block gives
  (with a non-nil error), or, with a nil error, the value of the function's result
  variable \<^verbatim>\<open>svg\<close> after the block and the document with the page added. The
  statement \<^verbatim>\<open>svg, bundleErr := imgbundler.BundleLocal(ctx, ms, svg)\<close> declares a new
  \<^verbatim>\<open>svg\<close> inside the block, so after the block the result variable still holds the
  bytes returned by \<^verbatim>\<open>plugin.PostProcess\<close>. The board is rendered with its root
  fill set to \<^verbatim>\<open>transparent\<close>.
\<close>

definition renderPDF_page ::
  "collaborators \<Rightarrow> renderOpts \<Rightarrow> diagram \<Rightarrow> string list \<Rightarrow> dictionary \<Rightarrow> pdfPage list
     \<Rightarrow> (bytes \<times> error option) \<times> pdfPage list" where
  "renderPDF_page env opts diagram currBoardPath pageMap pdf =
     (let rootFill = RootFill diagram;
          transparent = Diagram (Name diagram) (IsFolderOnly diagram) (Shapes diagram)
                          ''transparent'' (Layers diagram) (Scenarios diagram) (Steps diagram);
          (svg0, err0) = d2svg_Render env transparent
             \<lparr>Pad = Pad opts, Sketch = Sketch opts, Center = Center opts, ThemeID = 0,
              DarkThemeID = None, MasterID = [], SetDimensions = True\<rparr>
      in if err0 \<noteq> None then (([], err0), pdf)
         else
           let (svg1, err1) = PostProcess env svg0
           in if err1 \<noteq> None then ((svg1, err1), pdf)
              else
                let (svg2, bundleErr1) = BundleLocal env svg1;
                    (svg3, bundleErr2) = BundleRemote env svg2;
                    bundleErr = multierr_Combine bundleErr1 bundleErr2
                in if bundleErr \<noteq> None then ((svg3, bundleErr), pdf)
                   else
                     let svg4 = appendix_Append env transparent svg3;
                         (pngImg, errC) = ConvertSVG env svg4
                     in if errC \<noteq> None then ((svg4, errC), pdf)
                        else
                          let viewboxSlice = FindViewboxSlice env svg4
                          in if length viewboxSlice < 1 then ((svg4, Some indexPanic), pdf)
                             else if ParseFloat env (viewboxSlice ! 0) \<noteq> None
                               then ((svg4, ParseFloat env (viewboxSlice ! 0)), pdf)
                             else if length viewboxSlice < 2 then ((svg4, Some indexPanic), pdf)
                             else if ParseFloat env (viewboxSlice ! 1) \<noteq> None
                               then ((svg4, ParseFloat env (viewboxSlice ! 1)), pdf)
                             else
                               let page = \<lparr>page_pngImg = pngImg, page_boardPath = currBoardPath,
                                           page_themeID = ThemeID opts, page_rootFill = rootFill,
                                           page_shapes = Shapes diagram, page_pad = Pad opts,
                                           page_viewboxX = viewboxSlice ! 0,
                                           page_viewboxY = viewboxSlice ! 1\<rparr>
                               in if AddPDFPage env page \<noteq> None
                                  then ((svg4, AddPDFPage env page), pdf)
                                  else ((svg1, None), pdf @ [page]))"

text \<open>
  \<^verbatim>\<open>renderPDF\<close>: the document handle is \<open>None\<close> for the nil pointer of the outermost
  call, which then creates the document (\<^verbatim>\<open>pdflib.Init()\<close>, no pages) and is the
  root; the model returns the document next to the results. \<open>renderPDF_children\<close> is
  one of the three loops: the recursive calls get the output path \<^verbatim>\<open>""\<close> and the
  handle. \<^verbatim>\<open>pdf.Export\<close> writes the file with the bytes of the document when it
  succeeds.
\<close>

fun renderPDF ::
  "collaborators \<Rightarrow> renderOpts \<Rightarrow> string \<Rightarrow> diagram \<Rightarrow> pdfPage list option \<Rightarrow> string list
     \<Rightarrow> dictionary \<Rightarrow> world \<Rightarrow> (bytes \<times> error option) \<times> pdfPage list \<times> world"
and renderPDF_children ::
  "collaborators \<Rightarrow> renderOpts \<Rightarrow> diagram list \<Rightarrow> pdfPage list \<Rightarrow> string list
     \<Rightarrow> dictionary \<Rightarrow> world \<Rightarrow> error option \<times> pdfPage list \<times> world"
where
  "renderPDF env opts outputPath (Diagram name folderOnly shapes fill layers scenarios steps)
      pdf0 boardPath pageMap w =
     (let isRoot = (pdf0 = None);
          pdf = (case pdf0 of None \<Rightarrow> [] | Some handle \<Rightarrow> handle);
          currBoardPath = (if name = [] then boardPath @ [getFileName outputPath]
                           else boardPath @ [name])
      in case (if \<not> folderOnly
               then renderPDF_page env opts
                      (Diagram name folderOnly shapes fill layers scenarios steps)
                      currBoardPath pageMap pdf
               else (([], None), pdf)) of
           ((svg, Some err), pdf1) \<Rightarrow> ((svg, Some err), pdf1, w)
         | ((svg, None), pdf1) \<Rightarrow>
        (case renderPDF_children env opts layers pdf1 currBoardPath pageMap w of
           (Some err, pdf2, w2) \<Rightarrow> (([], Some err), pdf2, w2)
         | (None, pdf2, w2) \<Rightarrow>
        (case renderPDF_children env opts scenarios pdf2 currBoardPath pageMap w2 of
           (Some err, pdf3, w3) \<Rightarrow> (([], Some err), pdf3, w3)
         | (None, pdf3, w3) \<Rightarrow>
        (case renderPDF_children env opts steps pdf3 currBoardPath pageMap w3 of
           (Some err, pdf4, w4) \<Rightarrow> (([], Some err), pdf4, w4)
         | (None, pdf4, w4) \<Rightarrow>
             if isRoot then
               (let w5 = w4\<lparr>exportCalls := exportCalls w4 @ [outputPath]\<rparr>
                in case pdf_Export env outputPath pdf4 of
                     (doc, Some err) \<Rightarrow> (([], Some err), pdf4, w5)
                   | (doc, None) \<Rightarrow>
                       ((svg, None), pdf4, w5\<lparr>files := (files w5)(outputPath \<mapsto> doc)\<rparr>))
             else ((svg, None), pdf4, w4)))))"
| "renderPDF_children env opts [] pdf currBoardPath pageMap w = (None, pdf, w)"
| "renderPDF_children env opts (dl # dls) pdf currBoardPath pageMap w =
     (case renderPDF env opts [] dl (Some pdf) currBoardPath pageMap w of
        ((svg, Some err), pdf', w') \<Rightarrow> (Some err, pdf', w')
      | ((svg, None), pdf', w') \<Rightarrow> renderPDF_children env opts dls pdf' currBoardPath pageMap w')"

text \<open>
  \<open>renderPPTX_link\<close> is the body of the loop over the shapes of \<^verbatim>\<open>renderPPTX\<close>
  for a shape with a link, \<open>renderPPTX_slide\<close> the block
  \<^verbatim>\<open>if !diagram.IsFolderOnly { ... }\<close>: the slide is added before the viewbox is
  parsed, and the links are added to it afterwards. Every \<^verbatim>\<open>return\<close> inside the
  block returns nil bytes.
\<close>

definition renderPPTX_link :: "collaborators \<Rightarrow> dictionary \<Rightarrow> shape \<Rightarrow> pptxLink" where
  "renderPPTX_link env boardIdToIndex shape =
     (if \<not> parsesAsRootKey env (Link shape)
      then \<lparr>Tooltip = Link shape, ExternalUrl = Link shape, SlideIndex = 0\<rparr>
      else (case boardIdToIndex (Link shape) of
              Some pageNum \<Rightarrow> \<lparr>Tooltip = Link shape, ExternalUrl = [], SlideIndex = pageNum + 1\<rparr>
            | None \<Rightarrow> \<lparr>Tooltip = Link shape, ExternalUrl = [], SlideIndex = 0\<rparr>))"

definition renderPPTX_slide ::
  "collaborators \<Rightarrow> renderOpts \<Rightarrow> diagram \<Rightarrow> string list \<Rightarrow> dictionary \<Rightarrow> pptxSlide list
     \<Rightarrow> (bytes \<times> error option) \<times> pptxSlide list" where
  "renderPPTX_slide env opts diagram currBoardPath boardIdToIndex presentation =
     (let transparent = Diagram (Name diagram) (IsFolderOnly diagram) (Shapes diagram)
                          ''transparent'' (Layers diagram) (Scenarios diagram) (Steps diagram);
          (svg0, err0) = d2svg_Render env transparent
             \<lparr>Pad = Pad opts, Sketch = Sketch opts, Center = Center opts, ThemeID = 0,
              DarkThemeID = None, MasterID = [], SetDimensions = True\<rparr>
      in if err0 \<noteq> None then (([], err0), presentation)
         else
           let (svg1, err1) = PostProcess env svg0
           in if err1 \<noteq> None then (([], err1), presentation)
              else
                let (svg2, bundleErr1) = BundleLocal env svg1;
                    (svg3, bundleErr2) = BundleRemote env svg2;
                    bundleErr = multierr_Combine bundleErr1 bundleErr2
                in if bundleErr \<noteq> None then (([], bundleErr), presentation)
                   else
                     let svg4 = appendix_Append env transparent svg3;
                         (pngImg, errC) = ConvertSVG env svg4
                     in if errC \<noteq> None then (([], errC), presentation)
                        else if AddSlide env pngImg currBoardPath \<noteq> None
                          then (([], AddSlide env pngImg currBoardPath), presentation)
                        else
                          let slide = \<lparr>slide_pngImg = pngImg, slide_boardPath = currBoardPath,
                                       slide_links = []\<rparr>;
                              presentation1 = presentation @ [slide];
                              viewboxSlice = FindViewboxSlice env svg4
                          in if length viewboxSlice < 1 then (([], Some indexPanic), presentation1)
                             else if ParseFloat env (viewboxSlice ! 0) \<noteq> None
                               then (([], ParseFloat env (viewboxSlice ! 0)), presentation1)
                             else if length viewboxSlice < 2
                               then (([], Some indexPanic), presentation1)
                             else if ParseFloat env (viewboxSlice ! 1) \<noteq> None
                               then (([], ParseFloat env (viewboxSlice ! 1)), presentation1)
                             else
                               ((svg1, None),
                                presentation @
                                  [slide\<lparr>slide_links :=
                                     map (renderPPTX_link env boardIdToIndex)
                                       (filter (\<lambda>shape. Link shape \<noteq> []) (Shapes diagram))\<rparr>]))"

fun renderPPTX ::
  "collaborators \<Rightarrow> pptxSlide list \<Rightarrow> renderOpts \<Rightarrow> string \<Rightarrow> diagram \<Rightarrow> string list
     \<Rightarrow> dictionary \<Rightarrow> (bytes \<times> error option) \<times> pptxSlide list"
and renderPPTX_children ::
  "collaborators \<Rightarrow> pptxSlide list \<Rightarrow> renderOpts \<Rightarrow> diagram list \<Rightarrow> string list
     \<Rightarrow> dictionary \<Rightarrow> error option \<times> pptxSlide list"
where
  "renderPPTX env presentation opts outputPath
      (Diagram name folderOnly shapes fill layers scenarios steps) boardPath boardIdToIndex =
     (let currBoardPath = (if name = [] then boardPath @ [getFileName outputPath]
                           else boardPath @ [name])
      in case (if \<not> folderOnly
               then renderPPTX_slide env opts
                      (Diagram name folderOnly shapes fill layers scenarios steps)
                      currBoardPath boardIdToIndex presentation
               else (([], None), presentation)) of
           ((svg, Some err), p1) \<Rightarrow> ((svg, Some err), p1)
         | ((svg, None), p1) \<Rightarrow>
        (case renderPPTX_children env p1 opts layers currBoardPath boardIdToIndex of
           (Some err, p2) \<Rightarrow> (([], Some err), p2)
         | (None, p2) \<Rightarrow>
        (case renderPPTX_children env p2 opts scenarios currBoardPath boardIdToIndex of
           (Some err, p3) \<Rightarrow> (([], Some err), p3)
         | (None, p3) \<Rightarrow>
        (case renderPPTX_children env p3 opts steps currBoardPath boardIdToIndex of
           (Some err, p4) \<Rightarrow> (([], Some err), p4)
         | (None, p4) \<Rightarrow> ((svg, None), p4)))))"
| "renderPPTX_children env presentation opts [] currBoardPath boardIdToIndex = (None, presentation)"
| "renderPPTX_children env presentation opts (dl # dls) currBoardPath boardIdToIndex =
     (case renderPPTX env presentation opts [] dl currBoardPath boardIdToIndex of
        ((svg, Some err), p') \<Rightarrow> (Some err, p')
      | ((svg, None), p') \<Rightarrow> renderPPTX_children env p' opts dls currBoardPath boardIdToIndex)"

section \<open>The entry point: \<^verbatim>\<open>compile\<close>\<close>

text \<open>
  The result of \<^verbatim>\<open>compile\<close>: the three values it returns, the world it leaves, and,
  for reference in the properties, the board tree as it is when handed to
  \<^verbatim>\<open>render\<close>, \<^verbatim>\<open>renderPDF\<close> or \<^verbatim>\<open>renderPPTX\<close> (\<open>None\<close> when the call is not
  reached).
\<close>

record compileResult =
  res_out :: bytes
  res_written :: bool
  res_err :: "error option"
  res_world :: world
  res_tree :: "diagram option"

definition compile_failed :: "error option \<Rightarrow> world \<Rightarrow> diagram option \<Rightarrow> compileResult" where
  "compile_failed err w tree =
     \<lparr>res_out = [], res_written = False, res_err = err, res_world = w, res_tree = tree\<rparr>"

text \<open>The three arms of \<^verbatim>\<open>switch filepath.Ext(outputPath)\<close>.\<close>

definition compile_pdf ::
  "collaborators \<Rightarrow> renderOpts \<Rightarrow> string \<Rightarrow> diagram \<Rightarrow> world \<Rightarrow> compileResult" where
  "compile_pdf env renderOpts outputPath diagram w =
     (let pageMap = buildBoardIdToIndex diagram None []
      in case renderPDF env renderOpts outputPath diagram None [] pageMap w of
           ((pdf, Some err), doc, w') \<Rightarrow>
             \<lparr>res_out = pdf, res_written = False, res_err = Some err, res_world = w',
              res_tree = Some diagram\<rparr>
         | ((pdf, None), doc, w') \<Rightarrow>
             \<lparr>res_out = pdf, res_written = True, res_err = None, res_world = w',
              res_tree = Some diagram\<rparr>)"

definition compile_pptx ::
  "collaborators \<Rightarrow> renderOpts \<Rightarrow> string \<Rightarrow> diagram \<Rightarrow> world \<Rightarrow> compileResult" where
  "compile_pptx env renderOpts outputPath diagram w =
     (let boardIdToIndex = buildBoardIdToIndex diagram None []
      in case renderPPTX env [] renderOpts outputPath diagram [] boardIdToIndex of
           ((svg, Some err), p) \<Rightarrow> compile_failed (Some err) w (Some diagram)
         | ((svg, None), p) \<Rightarrow>
             (let w1 = w\<lparr>exportCalls := exportCalls w @ [outputPath]\<rparr>
              in case SaveTo env outputPath p of
                   (doc, Some err) \<Rightarrow> compile_failed (Some err) w1 (Some diagram)
                 | (doc, None) \<Rightarrow>
                     \<lparr>res_out = svg, res_written = True, res_err = None,
                      res_world = w1\<lparr>files := (files w1)(outputPath \<mapsto> doc)\<rparr>,
                      res_tree = Some diagram\<rparr>))"

definition compile_default ::
  "collaborators \<Rightarrow> renderOpts \<Rightarrow> int \<Rightarrow> string \<Rightarrow> bool \<Rightarrow> bool \<Rightarrow> diagram \<Rightarrow> world
     \<Rightarrow> compileResult" where
  "compile_default env renderOpts animateInterval outputPath bundle forceAppendix diagram0 w =
     (case (if animateInterval \<le> 0 then
              (case resolveLinks ''root'' outputPath diagram0 of
                 Inl err \<Rightarrow> Inl err
               | Inr linkToOutput \<Rightarrow> Inr (relink diagram0 linkToOutput))
            else Inr diagram0) of
        Inl err \<Rightarrow> compile_failed (Some err) w None
      | Inr diagram \<Rightarrow>
          (case render env renderOpts outputPath bundle forceAppendix diagram w of
             ((boards, Some err), w1) \<Rightarrow> compile_failed (Some err) w1 (Some diagram)
           | ((boards, None), w1) \<Rightarrow>
               if length boards > 0 \<and> animateInterval > 0 then
                 (case d2animate_Wrap env diagram boards renderOpts animateInterval of
                    (out, Some err) \<Rightarrow> compile_failed (Some err) w1 (Some diagram)
                  | (out, None) \<Rightarrow>
                      (case MkdirAll env (filepath_Dir outputPath) of
                         Some err \<Rightarrow> compile_failed (Some err) w1 (Some diagram)
                       | None \<Rightarrow>
                           (case WritePath env outputPath out w1 of
                              (Some err, w2) \<Rightarrow> compile_failed (Some err) w2 (Some diagram)
                            | (None, w2) \<Rightarrow>
                                \<lparr>res_out = out, res_written = True, res_err = None,
                                 res_world = w2, res_tree = Some diagram\<rparr>)))
               else
                 \<lparr>res_out = (if length boards > 0 then hd boards else []), res_written = True,
                  res_err = None, res_world = w1, res_tree = Some diagram\<rparr>))"

text \<open>
  \<^verbatim>\<open>compile\<close>. The steps before the \<^verbatim>\<open>switch\<close> read the input, compile it to the
  board tree and, for an animation, set the master id; each returns
  \<^verbatim>\<open>nil, false, err\<close> on failure.
\<close>

definition compile ::
  "collaborators \<Rightarrow> renderOpts \<Rightarrow> int \<Rightarrow> string \<Rightarrow> string \<Rightarrow> bool \<Rightarrow> bool \<Rightarrow> world
     \<Rightarrow> compileResult" where
  "compile env renderOpts0 animateInterval inputPath outputPath bundle forceAppendix w =
     (case ReadPath env inputPath of
        (input, Some err) \<Rightarrow> compile_failed (Some err) w None
      | (input, None) \<Rightarrow>
     (case NewRuler env of
        Some err \<Rightarrow> compile_failed (Some err) w None
      | None \<Rightarrow>
     (case d2lib_Compile env input of
        (diagram, Some err) \<Rightarrow> compile_failed (Some err) w None
      | (diagram, None) \<Rightarrow>
     (case (if animateInterval > 0 then
              (case HashID env diagram of
                 (masterID, Some err) \<Rightarrow> Inl err
               | (masterID, None) \<Rightarrow> Inr (renderOpts0\<lparr>MasterID := masterID\<rparr>))
            else Inr renderOpts0) of
        Inl err \<Rightarrow> compile_failed (Some err) w None
      | Inr renderOpts \<Rightarrow>
     (case plugin_Info env of
        Some err \<Rightarrow> compile_failed (Some err) w None
      | None \<Rightarrow>
     (case FeatureSupportCheck env input of
        Some err \<Rightarrow> compile_failed (Some err) w None
      | None \<Rightarrow>
          if filepath_Ext outputPath = ''.pdf'' then compile_pdf env renderOpts outputPath diagram w
          else if filepath_Ext outputPath = ''.pptx''
            then compile_pptx env renderOpts outputPath diagram w
          else compile_default env renderOpts animateInterval outputPath bundle forceAppendix
                 diagram w))))))"

section \<open>Identifiers and output paths as the design states them\<close>

text \<open>
  The link identifier of every board of a tree, in the fixed traversal order (the board,
  then its layers, scenarios and steps, depth first): the identifier of a child is
  \<^verbatim>\<open><parent identifier>.<category>.<child name>\<close>. This follows the wording of the
  data model, not a function of the source; the functions above are compared with it.
\<close>

fun boardIds :: "string \<Rightarrow> diagram \<Rightarrow> string list" where
  "boardIds ident (Diagram name folderOnly shapes fill layers scenarios steps) =
     ident #
     concat (map (\<lambda>c. boardIds (ident @ ''.'' @ ''layers'' @ ''.'' @ Name c) c) layers) @
     concat (map (\<lambda>c. boardIds (ident @ ''.'' @ ''scenarios'' @ ''.'' @ Name c) c) scenarios) @
     concat (map (\<lambda>c. boardIds (ident @ ''.'' @ ''steps'' @ ''.'' @ Name c) c) steps)"

text \<open>
  The path-collapsing rule in the words of the design: the base path of a category's
  children is the node's path, with a segment named after the category appended only
  when one of the other two categories is populated.
\<close>

definition categoryBase :: "string \<Rightarrow> string \<Rightarrow> bool \<Rightarrow> string" where
  "categoryBase nodePath category othersPopulated =
     (if othersPopulated then nestPath nodePath category else nodePath)"

text \<open>
  The pairs (link identifier, output path) of all boards in traversal order, written from
  the four steps of the link-resolution algorithm as the design states them.
\<close>

fun boardEntries :: "string \<Rightarrow> string \<Rightarrow> diagram \<Rightarrow> (string \<times> string) list" where
  "boardEntries ident path (Diagram name folderOnly shapes fill layers scenarios steps) =
     (let nodePath = (if name = [] then path else nestPath path name);
          ownPath = (if layers = [] \<and> scenarios = [] \<and> steps = [] then nodePath
                     else nestPath nodePath ''index'')
      in (ident, ownPath) #
         concat (map (\<lambda>c. boardEntries (ident @ ''.'' @ ''layers'' @ ''.'' @ Name c)
                       (categoryBase nodePath ''layers'' (scenarios \<noteq> [] \<or> steps \<noteq> [])) c) layers) @
         concat (map (\<lambda>c. boardEntries (ident @ ''.'' @ ''scenarios'' @ ''.'' @ Name c)
                       (categoryBase nodePath ''scenarios'' (layers \<noteq> [] \<or> steps \<noteq> [])) c) scenarios) @
         concat (map (\<lambda>c. boardEntries (ident @ ''.'' @ ''steps'' @ ''.'' @ Name c)
                       (categoryBase nodePath ''steps'' (layers \<noteq> [] \<or> scenarios \<noteq> [])) c) steps))"

text \<open>The map that a list of entries, stored in order, amounts to: a later entry wins.\<close>

definition entriesMap :: "(string \<times> string) list \<Rightarrow> linkmap" where
  "entriesMap entries = map_of (rev entries)"

text \<open>One visit of the pagination indexer: the key receives the current number of keys.\<close>

definition assignIndex :: "dictionary \<Rightarrow> string \<Rightarrow> dictionary" where
  "assignIndex dictionary key = dictionary(key \<mapsto> int (card (dom dictionary)))"

text \<open>
  For the frame of \<^verbatim>\<open>relink\<close>: all shapes of a tree in traversal order, the tree
  with every link blanked (two trees agree on it exactly when they differ in links only),
  and the link that the design prescribes for a shape.
\<close>

fun allShapes :: "diagram \<Rightarrow> shape list" where
  "allShapes (Diagram name folderOnly shapes fill layers scenarios steps) =
     shapes @ concat (map allShapes layers) @ concat (map allShapes scenarios) @
     concat (map allShapes steps)"

fun eraseLinks :: "diagram \<Rightarrow> diagram" where
  "eraseLinks (Diagram name folderOnly shapes fill layers scenarios steps) =
     Diagram name folderOnly (map (\<lambda>s. s\<lparr>Link := []\<rparr>) shapes) fill
       (map eraseLinks layers) (map eraseLinks scenarios) (map eraseLinks steps)"

definition rewrittenLink :: "linkmap \<Rightarrow> string \<Rightarrow> string" where
  "rewrittenLink linkToOutput link = (case linkToOutput link of Some v \<Rightarrow> v | None \<Rightarrow> link)"

section \<open>Example trees\<close>

text \<open>
  A board without children or shapes; a shape with a link; the tree of the design's first
  example (an unnamed root with the single layer \<^verbatim>\<open>details\<close>, here with one
  internal and one external link on the root); and a tree in which two boards have the
  same link identifier: the layer \<^verbatim>\<open>a\<close> has the layer \<^verbatim>\<open>b\<close>, and a sibling
  layer of \<^verbatim>\<open>a\<close> is named \<^verbatim>\<open>a.layers.b\<close>.
\<close>

definition leafBoard :: "string \<Rightarrow> diagram" where
  "leafBoard name = Diagram name False [] [] [] [] []"

definition linkShape :: "string \<Rightarrow> shape" where
  "linkShape l = \<lparr>Pos = (0, 0), Width = 10, Height = 10, StrokeWidth = 1, Link = l\<rparr>"

definition detailsTree :: diagram where
  "detailsTree =
     Diagram [] False [linkShape ''root.layers.details'', linkShape ''https://d2lang.com'']
       [] [leafBoard ''details''] [] []"

definition collidingTree :: diagram where
  "collidingTree =
     Diagram [] False [] []
       [Diagram ''a'' False [] [] [leafBoard ''b''] [] [], leafBoard ''a.layers.b'', leafBoard ''c'']
       [] []"

text \<open>The bytes that \<^verbatim>\<open>_render\<close> writes for a vector image: the image, ending in a line feed.\<close>

definition lineTerminated :: "bytes \<Rightarrow> bytes" where
  "lineTerminated svg = (if length svg > 0 \<and> last svg \<noteq> CHR 0x0A then svg @ [CHR 0x0A] else svg)"

text \<open>
  Collaborators for the examples: compiling gives the tree \<open>tree\<close>; rendering fails
  for the boards that satisfy \<open>failing\<close> and gives the board's name between tags
  otherwise; the two bundlers return their input with the errors \<open>localErr\<close> and
  \<open>remoteErr\<close>; everything else succeeds. Then the options, a world without files,
  an unnamed root with the layers \<^verbatim>\<open>a\<close>, \<^verbatim>\<open>b\<close> and \<^verbatim>\<open>c\<close>, and a
  folder-only root with the layer \<^verbatim>\<open>a\<close>.
\<close>

definition testEnv :: "diagram \<Rightarrow> (diagram \<Rightarrow> bool) \<Rightarrow> error option \<Rightarrow> error option \<Rightarrow> collaborators" where
  "testEnv tree failing localErr remoteErr =
     \<lparr>ReadPath = (\<lambda>p. (''source'', None)),
      NewRuler = None,
      d2lib_Compile = (\<lambda>input. (tree, None)),
      HashID = (\<lambda>d. (''master'', None)),
      plugin_Info = None,
      FeatureSupportCheck = (\<lambda>input. None),
      d2svg_Render = (\<lambda>d opts. if failing d then ([], Some (Error ''render failed''))
                                 else (''<svg>'' @ Name d @ ''</svg>'', None)),
      PostProcess = (\<lambda>svg. (svg, None)),
      BundleLocal = (\<lambda>svg. (svg, localErr)),
      BundleRemote = (\<lambda>svg. (svg, remoteErr)),
      appendix_Append = (\<lambda>d svg. svg @ ''<!--appendix-->''),
      ConvertSVG = (\<lambda>svg. (''PNG'' @ svg, None)),
      AddExif = (\<lambda>png. (png, None)),
      d2animate_Wrap = (\<lambda>d boards opts interval. (concat boards, None)),
      MkdirAll = (\<lambda>dir. None),
      WriteFile = (\<lambda>fp p. None),
      FindViewboxSlice = (\<lambda>svg. [''0'', ''0'', ''100'', ''100'']),
      ParseFloat = (\<lambda>s. None),
      AddPDFPage = (\<lambda>page. None),
      pdf_Export = (\<lambda>fp pages. (concat (map page_pngImg pages), None)),
      AddSlide = (\<lambda>img boardPath. None),
      parsesAsRootKey = (\<lambda>link. take 4 link = ''root''),
      SaveTo = (\<lambda>fp slides. (concat (map slide_pngImg slides), None))\<rparr>"

definition testOpts :: renderOpts where
  "testOpts = \<lparr>Pad = 100, Sketch = False, Center = False, ThemeID = 0, DarkThemeID = None,
               MasterID = [], SetDimensions = False\<rparr>"

definition emptyWorld :: world where
  "emptyWorld = \<lparr>files = Map.empty, stdout = [], exportCalls = []\<rparr>"

definition threeLayers :: diagram where
  "threeLayers = Diagram [] False [] [] [leafBoard ''a'', leafBoard ''b'', leafBoard ''c''] [] []"

definition folderRoot :: diagram where
  "folderRoot = Diagram [] True [] [] [leafBoard ''a''] [] []"

section \<open>Properties\<close>

subsection \<open>The source functions against the traversal of the design\<close>

lemma entriesMap_append: "entriesMap (xs @ ys) = entriesMap xs ++ entriesMap ys"
  by (simp add: entriesMap_def)

lemma resolveLinks_entries_aux:
  "resolveLinks c p d = Inr (entriesMap (boardEntries c p d))"
  "resolveLinks_children c cat cp dls acc =
     Inr (acc ++ entriesMap (concat (map (\<lambda>dl. boardEntries (c @ ''.'' @ cat @ ''.'' @ Name dl) cp dl) dls)))"
proof (induction c p d and c cat cp dls acc rule: resolveLinks_resolveLinks_children.induct)
  case (1 currDiagramPath outputPath0 name folderOnly shapes fill layers scenarios steps)
  show ?case
    apply (simp only: resolveLinks.simps Let_def)
    apply (subst "1.IH"(1)[OF refl refl refl refl refl refl])
    apply (simp only: sum.case)
    apply (subst "1.IH"(2)[OF refl refl refl refl refl refl])
     apply (rule "1.IH"(1)[OF refl refl refl refl refl refl])
    apply (simp only: sum.case)
    apply (subst "1.IH"(3)[OF refl refl refl refl refl refl])
      apply (rule "1.IH"(1)[OF refl refl refl refl refl refl])
     apply (rule "1.IH"(2)[OF refl refl refl refl refl refl])
     apply (rule "1.IH"(1)[OF refl refl refl refl refl refl])
    apply (simp add: entriesMap_append categoryBase_def Let_def)
    apply (simp add: entriesMap_def)
    done
next
  case (2 currDiagramPath category childOutputPath linkToOutput)
  show ?case by (simp add: entriesMap_def)
next
  case (3 currDiagramPath category childOutputPath dl dls linkToOutput)
  have a: "resolveLinks (strings_Join [currDiagramPath, category, Name dl] ''.'') childOutputPath dl
      = Inr (entriesMap (boardEntries (currDiagramPath @ ''.'' @ category @ ''.'' @ Name dl) childOutputPath dl))"
    using "3.IH"(1) by simp
  show ?case
    using "3.IH"(2)[OF a[unfolded append.simps]] a
    by (simp add: entriesMap_append)
qed

lemma strings_Join_snoc:
  "xs \<noteq> [] \<Longrightarrow> strings_Join (xs @ [a]) sep = strings_Join xs sep @ sep @ a"
  by (induction xs sep rule: strings_Join.induct) auto

lemma buildBoardIdToIndex_fold_aux:
  "buildBoardIdToIndex d dict0 path =
     foldl assignIndex (case dict0 of None \<Rightarrow> Map.empty | Some m \<Rightarrow> m)
       (boardIds (strings_Join (case dict0 of None \<Rightarrow> (path @ [Name d])[0 := ''root'']
                                 | Some m \<Rightarrow> path @ [Name d]) ''.'') d)"
  "childPath \<noteq> [] \<Longrightarrow> buildBoardIdToIndex_children dls dict childPath =
     foldl assignIndex dict
       (concat (map (\<lambda>dl. boardIds (strings_Join childPath ''.'' @ ''.'' @ Name dl) dl) dls))"
proof (induction d dict0 path and dls dict childPath
       rule: buildBoardIdToIndex_buildBoardIdToIndex_children.induct)
  case (1 name folderOnly shapes fill layers scenarios steps dictionary0 path)
  define newPath where "newPath = (case dictionary0 of None \<Rightarrow> (path @ [name])[0 := ''root'']
                                   | Some d \<Rightarrow> path @ [name])"
  have ne: "newPath \<noteq> []" by (simp add: newPath_def split: option.splits)
  have j: "strings_Join (newPath @ [cat]) ''.'' @ ''.'' @ n
          = strings_Join newPath ''.'' @ ''.'' @ cat @ ''.'' @ n" for cat n
    using ne by (simp add: strings_Join_snoc)
  define dictionary where "dictionary = (case dictionary0 of None \<Rightarrow> Map.empty | Some d \<Rightarrow> d)"
  define d1 where "d1 = dictionary(strings_Join newPath ''.'' \<mapsto> int (card (dom dictionary)))"
  define d2 where "d2 = buildBoardIdToIndex_children layers d1 (newPath @ [''layers''])"
  define d3 where "d3 = buildBoardIdToIndex_children scenarios d2 (newPath @ [''scenarios''])"
  have e2: "d2 = foldl assignIndex d1
       (concat (map (\<lambda>dl. boardIds (strings_Join newPath ''.'' @ ''.'' @ ''layers'' @ ''.'' @ Name dl) dl) layers))"
    unfolding d2_def d1_def dictionary_def newPath_def
    by (subst "1.IH"(1)[OF refl refl refl refl refl])
       (simp_all add: strings_Join_snoc ne[unfolded newPath_def])
  have e3: "d3 = foldl assignIndex d2
       (concat (map (\<lambda>dl. boardIds (strings_Join newPath ''.'' @ ''.'' @ ''scenarios'' @ ''.'' @ Name dl) dl) scenarios))"
    unfolding d3_def d2_def d1_def dictionary_def newPath_def
    by (subst "1.IH"(2)[OF refl refl refl refl refl refl])
       (simp_all add: strings_Join_snoc ne[unfolded newPath_def])
  have e4: "buildBoardIdToIndex_children steps d3 (newPath @ [''steps'']) = foldl assignIndex d3
       (concat (map (\<lambda>dl. boardIds (strings_Join newPath ''.'' @ ''.'' @ ''steps'' @ ''.'' @ Name dl) dl) steps))"
    unfolding d3_def d2_def d1_def dictionary_def newPath_def
    by (subst "1.IH"(3)[OF refl refl refl refl refl refl refl])
       (simp_all add: strings_Join_snoc ne[unfolded newPath_def])
  have "buildBoardIdToIndex (Diagram name folderOnly shapes fill layers scenarios steps) dictionary0 path
        = buildBoardIdToIndex_children steps d3 (newPath @ [''steps''])"
    by (simp add: Let_def d3_def d2_def d1_def dictionary_def newPath_def)
  also have "\<dots> = foldl assignIndex dictionary
       (boardIds (strings_Join newPath ''.'') (Diagram name folderOnly shapes fill layers scenarios steps))"
    by (subst e4, subst e3, subst e2) (simp add: d1_def assignIndex_def)
  finally show ?case
    by (simp only: dictionary_def newPath_def diagram.sel)
next
  case (2 dictionary childPath)
  show ?case by simp
next
  case (3 dl dls dictionary childPath)
  show ?case
    using "3.IH" "3.prems" by (simp add: strings_Join_snoc)
qed

lemma dom_entriesMap: "dom (entriesMap es) = fst ` set es"
  by (simp add: entriesMap_def dom_map_of_conv_image_fst)

lemma boardEntries_ids: "map fst (boardEntries c p d) = boardIds c d"
proof (induction d arbitrary: c p)
  case (Diagram name folderOnly shapes fill layers scenarios steps)
  have "concat (map (\<lambda>x. map fst (boardEntries (f x) q x)) xs) = concat (map (\<lambda>x. boardIds (f x) x) xs)"
    if "\<And>x c p. x \<in> set xs \<Longrightarrow> map fst (boardEntries c p x) = boardIds c x" for f q xs
    using that by (induction xs) simp_all
  then show ?case
    using Diagram.IH by (simp add: Let_def map_concat comp_def)
qed

lemma dom_assignIndex_fold: "dom (foldl assignIndex m ks) = dom m \<union> set ks"
  by (induction ks arbitrary: m) (auto simp: assignIndex_def)

lemma finite_dom_assignIndex_fold: "finite (dom m) \<Longrightarrow> finite (dom (foldl assignIndex m ks))"
  by (simp add: dom_assignIndex_fold)

lemma assignIndex_fold_notin: "k \<notin> set ks \<Longrightarrow> foldl assignIndex m ks k = m k"
  by (induction ks arbitrary: m) (auto simp: assignIndex_def)

lemma assignIndex_fold_distinct:
  "distinct ks \<Longrightarrow> finite (dom m) \<Longrightarrow> set ks \<inter> dom m = {} \<Longrightarrow> i < length ks \<Longrightarrow>
   foldl assignIndex m ks (ks ! i) = Some (int (card (dom m) + i))"
proof (induction ks arbitrary: m i)
  case Nil
  then show ?case by simp
next
  case (Cons k ks)
  have fin: "finite (dom (assignIndex m k))" using Cons.prems(2) by (simp add: assignIndex_def)
  have card: "card (dom (assignIndex m k)) = Suc (card (dom m))"
    using Cons.prems(2,3) by (simp add: assignIndex_def)
  have disj: "set ks \<inter> dom (assignIndex m k) = {}"
    using Cons.prems(1,3) by (auto simp: assignIndex_def)
  show ?case
  proof (cases i)
    case 0
    then show ?thesis
      using Cons.prems(1) by (simp add: assignIndex_fold_notin) (simp add: assignIndex_def)
  next
    case (Suc j)
    then show ?thesis
      using Cons.IH[OF _ fin disj, of j] Cons.prems(1,4) card by simp
  qed
qed

lemma boardIds_hd: "boardIds c d = c # tl (boardIds c d)"
  by (cases d) simp

lemma boardIds_tl_longer: "k \<in> set (tl (boardIds c d)) \<Longrightarrow> length c < length k"
proof (induction c d arbitrary: k rule: boardIds.induct)
  case (1 ident name folderOnly shapes fill layers scenarios steps)
  have step: "length ident < length k"
    if "x \<in> set xs" and "k \<in> set (boardIds (ident @ ''.'' @ cat @ ''.'' @ Name x) x)"
      and ih: "\<And>k'. k' \<in> set (tl (boardIds (ident @ ''.'' @ cat @ ''.'' @ Name x) x)) \<Longrightarrow>
                 length (ident @ ''.'' @ cat @ ''.'' @ Name x) < length k'"
    for x xs cat
  proof -
    from that(2) have "k = ident @ ''.'' @ cat @ ''.'' @ Name x \<or>
        k \<in> set (tl (boardIds (ident @ ''.'' @ cat @ ''.'' @ Name x) x))"
      by (subst (asm) boardIds_hd) auto
    then show ?thesis using ih by fastforce
  qed
  from "1.prems" consider
      x where "x \<in> set layers" "k \<in> set (boardIds (ident @ ''.'' @ ''layers'' @ ''.'' @ Name x) x)"
    | x where "x \<in> set scenarios" "k \<in> set (boardIds (ident @ ''.'' @ ''scenarios'' @ ''.'' @ Name x) x)"
    | x where "x \<in> set steps" "k \<in> set (boardIds (ident @ ''.'' @ ''steps'' @ ''.'' @ Name x) x)"
    by auto
  then show ?case
  proof cases
    case 1
    then show ?thesis using step[of x layers "''layers''"] "1.IH"(1)[of x] by blast
  next
    case 2
    then show ?thesis using step[of x scenarios "''scenarios''"] "1.IH"(2)[of x] by blast
  next
    case 3
    then show ?thesis using step[of x steps "''steps''"] "1.IH"(3)[of x] by blast
  qed
qed

lemma boardIds_nonempty_keys: "c \<noteq> [] \<Longrightarrow> k \<in> set (boardIds c d) \<Longrightarrow> k \<noteq> []"
  using boardIds_tl_longer[of k c d] by (subst (asm) boardIds_hd) auto

lemma boardIds_root_once: "c \<notin> set (tl (boardIds c d))"
  using boardIds_tl_longer[of c c d] by auto

lemma buildBoardIdToIndex_root_fold:
  "buildBoardIdToIndex d None [] = foldl assignIndex Map.empty (boardIds ''root'' d)"
  by (simp add: buildBoardIdToIndex_fold_aux(1))

lemma resolveLinks_dom:
  "resolveLinks c p d = Inr m \<Longrightarrow> dom m = set (boardIds c d)"
proof -
  assume "resolveLinks c p d = Inr m"
  then have "m = entriesMap (boardEntries c p d)"
    by (simp add: resolveLinks_entries_aux(1))
  then have "dom m = set (map fst (boardEntries c p d))"
    by (simp add: dom_entriesMap)
  then show ?thesis by (simp only: boardEntries_ids)
qed

lemma resolved_map_empty_key:
  "resolveLinks ''root'' p t = Inr m \<Longrightarrow> m [] = None"
  using resolveLinks_dom[of "''root''" p t m] boardIds_nonempty_keys[of "''root''" "[]" t]
  by (auto simp: domIff)

lemma relink_links_aux:
  "m [] = None \<Longrightarrow>
   map Link (allShapes (relink d m)) = map (\<lambda>s. rewrittenLink m (Link s)) (allShapes d)"
proof (induction d)
  case (Diagram name folderOnly shapes fill layers scenarios steps)
  have sh: "map Link (map (relink_shape m) shapes) = map (\<lambda>s. rewrittenLink m (Link s)) shapes"
    using Diagram.prems
    by (induction shapes) (auto simp: relink_shape_def rewrittenLink_def split: option.splits)
  have ch: "map Link (concat (map allShapes (map (\<lambda>b. relink b m) xs)))
        = map (\<lambda>s. rewrittenLink m (Link s)) (concat (map allShapes xs))"
    if "\<And>x. x \<in> set xs \<Longrightarrow>
          map Link (allShapes (relink x m)) = map (\<lambda>s. rewrittenLink m (Link s)) (allShapes x)" for xs
    using that by (induction xs) simp_all
  show ?case
    using Diagram.IH Diagram.prems sh ch[of layers] ch[of scenarios] ch[of steps] by simp
qed

lemma relink_frame_aux: "eraseLinks (relink d m) = eraseLinks d"
proof (induction d)
  case (Diagram name folderOnly shapes fill layers scenarios steps)
  have sh: "map (\<lambda>s. s\<lparr>Link := []\<rparr>) (map (relink_shape m) shapes) = map (\<lambda>s. s\<lparr>Link := []\<rparr>) shapes"
    by (induction shapes) (auto simp: relink_shape_def split: option.splits)
  have ch: "map eraseLinks (map (\<lambda>b. relink b m) xs) = map eraseLinks xs"
    if "\<And>x. x \<in> set xs \<Longrightarrow> eraseLinks (relink x m) = eraseLinks x" for xs
    using that by (induction xs) simp_all
  show ?case
    using Diagram.IH sh ch[of layers] ch[of scenarios] ch[of steps] by simp
qed

lemma nestPath_example:
  "nestPath ''diagrams/app.svg'' ''index'' = ''diagrams/app/index.svg''"
  "nestPath ''diagrams/app.svg'' ''details'' = ''diagrams/app/details.svg''"
  by (simp_all add: nestPath_def filepath_Ext_def strings_TrimSuffix_def strings_HasSuffix_def
      filepath_Join_def filepath_Clean_def)

lemma detailsTree_ids: "boardIds ''root'' detailsTree = [''root'', ''root.layers.details'']"
  by (simp add: detailsTree_def leafBoard_def)

lemma collidingTree_ids:
  "boardIds ''root'' collidingTree =
     [''root'', ''root.layers.a'', ''root.layers.a.layers.b'', ''root.layers.a.layers.b'',
      ''root.layers.c'']"
  by (simp add: collidingTree_def leafBoard_def)

subsection \<open>Link resolution never fails\<close>

text \<open>
  Claim C10. For every board tree, identifier and output path, \<^verbatim>\<open>resolveLinks\<close>
  returns a nil error: the result is a map, and no error value is ever the result.
\<close>

theorem resolveLinks_never_fails:
  "(\<exists>linkToOutput. resolveLinks currDiagramPath outputPath diagram = Inr linkToOutput) \<and>
   (\<forall>err. resolveLinks currDiagramPath outputPath diagram \<noteq> Inl err)"
  by (simp add: resolveLinks_entries_aux(1))

subsection \<open>The path-collapsing rule\<close>

text \<open>
  Claim C2. The map returned by \<^verbatim>\<open>resolveLinks\<close> is the map of the entries that the
  design's rule prescribes: the children of a category are resolved below
  \<open>categoryBase nodePath category others\<close>, which is the node's path with the
  category's segment appended when one of the other two categories is populated
  (\<open>others\<close> true) and the node's path itself otherwise. In the tree of the example,
  with output path \<^verbatim>\<open>diagrams/app.svg\<close>, \<^verbatim>\<open>root\<close> maps to
  \<^verbatim>\<open>diagrams/app/index.svg\<close> and \<^verbatim>\<open>root.layers.details\<close> to
  \<^verbatim>\<open>diagrams/app/details.svg\<close>.
\<close>

theorem resolveLinks_collapses_categories:
  "resolveLinks currDiagramPath outputPath diagram =
     Inr (entriesMap (boardEntries currDiagramPath outputPath diagram)) \<and>
   categoryBase nodePath category True = nestPath nodePath category \<and>
   categoryBase nodePath category False = nodePath \<and>
   projr (resolveLinks ''root'' ''diagrams/app.svg'' detailsTree) ''root''
     = Some ''diagrams/app/index.svg'' \<and>
   projr (resolveLinks ''root'' ''diagrams/app.svg'' detailsTree) ''root.layers.details''
     = Some ''diagrams/app/details.svg''"
proof -
  have "projr (resolveLinks ''root'' ''diagrams/app.svg'' detailsTree) ''root''
          = Some ''diagrams/app/index.svg''"
    by (simp add: detailsTree_def leafBoard_def nestPath_example)
  moreover have "projr (resolveLinks ''root'' ''diagrams/app.svg'' detailsTree) ''root.layers.details''
          = Some ''diagrams/app/details.svg''"
    by (simp add: detailsTree_def leafBoard_def nestPath_example)
  ultimately show ?thesis
    by (simp add: resolveLinks_entries_aux(1) categoryBase_def)
qed

subsection \<open>Keys of the two maps\<close>

text \<open>
  Claim C1, as stated, at the tree \<open>collidingTree\<close>: the tree has five boards, and
  each of the two maps has four entries, because two boards have the link identifier
  \<^verbatim>\<open>root.layers.a.layers.b\<close>.
\<close>

theorem keys_one_entry_per_board_counterexample:
  "\<not> isl (resolveLinks ''root'' ''out.svg'' collidingTree) \<and>
   length (boardIds ''root'' collidingTree) = 5 \<and>
   card (dom (projr (resolveLinks ''root'' ''out.svg'' collidingTree))) = 4 \<and>
   card (dom (buildBoardIdToIndex collidingTree None [])) = 4"
proof -
  have r: "resolveLinks ''root'' ''out.svg'' collidingTree
             = Inr (entriesMap (boardEntries ''root'' ''out.svg'' collidingTree))"
    by (rule resolveLinks_entries_aux(1))
  have "dom (projr (resolveLinks ''root'' ''out.svg'' collidingTree))
          = set (boardIds ''root'' collidingTree)"
    using resolveLinks_dom[OF r] r by simp
  moreover have "dom (buildBoardIdToIndex collidingTree None []) = set (boardIds ''root'' collidingTree)"
    by (simp add: buildBoardIdToIndex_root_fold dom_assignIndex_fold)
  ultimately show ?thesis
    by (simp add: r collidingTree_ids)
qed

text \<open>
  Claim C1, amended. For every board tree and output path, the map returned by
  \<^verbatim>\<open>resolveLinks\<close> (root identifier \<^verbatim>\<open>root\<close>) and the map returned by
  \<^verbatim>\<open>buildBoardIdToIndex\<close> (nil dictionary, nil path) have the same set of keys, and
  that set is exactly the set of the boards' dot-joined link identifiers; when the
  identifiers of the boards are pairwise distinct, each map has exactly one entry per
  board.
\<close>

theorem keys_of_links_and_indices_agree:
  "\<not> isl (resolveLinks ''root'' outputPath diagram) \<and>
   dom (projr (resolveLinks ''root'' outputPath diagram)) = dom (buildBoardIdToIndex diagram None []) \<and>
   dom (buildBoardIdToIndex diagram None []) = set (boardIds ''root'' diagram) \<and>
   (distinct (boardIds ''root'' diagram) \<longrightarrow>
      card (dom (projr (resolveLinks ''root'' outputPath diagram))) = length (boardIds ''root'' diagram) \<and>
      card (dom (buildBoardIdToIndex diagram None [])) = length (boardIds ''root'' diagram))"
proof -
  have r: "resolveLinks ''root'' outputPath diagram
             = Inr (entriesMap (boardEntries ''root'' outputPath diagram))"
    by (rule resolveLinks_entries_aux(1))
  have d1: "dom (entriesMap (boardEntries ''root'' outputPath diagram)) = set (boardIds ''root'' diagram)"
    by (rule resolveLinks_dom[OF r])
  have d2: "dom (buildBoardIdToIndex diagram None []) = set (boardIds ''root'' diagram)"
    by (simp add: buildBoardIdToIndex_root_fold dom_assignIndex_fold)
  show ?thesis
    by (simp add: r d1 d2 distinct_card)
qed

theorem keys_of_links_and_indices_agree_witness:
  "distinct (boardIds ''root'' detailsTree) \<and>
   dom (projr (resolveLinks ''root'' ''diagrams/app.svg'' detailsTree))
     = dom (buildBoardIdToIndex detailsTree None []) \<and>
   card (dom (buildBoardIdToIndex detailsTree None [])) = 2"
  using keys_of_links_and_indices_agree[of "''diagrams/app.svg''" detailsTree]
  by (simp add: detailsTree_ids)

subsection \<open>Pagination indices\<close>

text \<open>
  Claim C3, as stated, at the tree \<open>collidingTree\<close>: its five boards, in traversal
  order, end with the indices 0, 1, 3, 3, 3. The index 2 is missing, and the boards
  \<^verbatim>\<open>root.layers.a.layers.b\<close> and \<^verbatim>\<open>root.layers.c\<close> share the index 3.
\<close>

theorem pagination_indices_counterexample:
  "map (buildBoardIdToIndex collidingTree None []) (boardIds ''root'' collidingTree)
     = [Some 0, Some 1, Some 3, Some 3, Some 3]"
  by (simp add: collidingTree_def leafBoard_def)

text \<open>
  Claim C3, amended. For every board tree, \<^verbatim>\<open>buildBoardIdToIndex\<close> called with a nil
  dictionary and a nil path gives the root board the index 0 under the literal key
  \<^verbatim>\<open>root\<close>, whatever the root's name (the function takes no output file name). When
  the link identifiers of the boards are pairwise distinct, the boards in traversal order
  (layers, then scenarios, then steps, depth first) receive the indices 0, 1, 2, ...
  with no gap and no repeat, and the map has no other key.
\<close>

theorem pagination_indices_dense:
  "buildBoardIdToIndex diagram None [] ''root'' = Some 0 \<and>
   hd (boardIds ''root'' diagram) = ''root'' \<and>
   (distinct (boardIds ''root'' diagram) \<longrightarrow>
      map (buildBoardIdToIndex diagram None []) (boardIds ''root'' diagram)
        = map (\<lambda>i. Some (int i)) [0..<length (boardIds ''root'' diagram)] \<and>
      dom (buildBoardIdToIndex diagram None []) = set (boardIds ''root'' diagram))"
proof -
  let ?ids = "boardIds ''root'' diagram"
  let ?dict = "buildBoardIdToIndex diagram None []"
  have f: "?dict = foldl assignIndex Map.empty ?ids"
    by (rule buildBoardIdToIndex_root_fold)
  have root: "?dict ''root'' = Some 0"
  proof -
    have "?dict = foldl assignIndex (assignIndex Map.empty ''root'') (tl ?ids)"
      by (subst f, subst boardIds_hd) simp
    then have "?dict ''root'' = assignIndex Map.empty ''root'' ''root''"
      using boardIds_root_once[of "''root''" diagram] by (simp add: assignIndex_fold_notin)
    then show ?thesis by (simp add: assignIndex_def)
  qed
  have hd: "hd ?ids = ''root''"
    by (subst boardIds_hd) simp
  have dense: "map ?dict ?ids = map (\<lambda>i. Some (int i)) [0..<length ?ids]" if "distinct ?ids"
  proof (rule nth_equalityI)
    show "length (map ?dict ?ids) = length (map (\<lambda>i. Some (int i)) [0..<length ?ids])" by simp
  next
    fix i assume "i < length (map ?dict ?ids)"
    then have i: "i < length ?ids" by simp
    have "foldl assignIndex Map.empty ?ids (?ids ! i) = Some (int (card (dom (Map.empty :: dictionary)) + i))"
      by (rule assignIndex_fold_distinct[OF that _ _ i]) simp_all
    then show "map ?dict ?ids ! i = map (\<lambda>i. Some (int i)) [0..<length ?ids] ! i"
      using i f by simp
  qed
  have "dom ?dict = set ?ids"
    by (simp add: f dom_assignIndex_fold)
  then show ?thesis using root hd dense by simp
qed

theorem pagination_indices_dense_witness:
  "distinct (boardIds ''root'' detailsTree) \<and>
   map (buildBoardIdToIndex detailsTree None []) [''root'', ''root.layers.details'']
     = [Some 0, Some 1]"
  using pagination_indices_dense[of detailsTree]
  by (simp add: detailsTree_ids upt_rec)

subsection \<open>Link rewriting\<close>

text \<open>
  Claim C4. For every board tree and every map returned by the link resolver,
  \<^verbatim>\<open>relink\<close> gives each shape whose link is a key of the map that key's value, leaves
  every other link as it is, and changes nothing else in the tree: the links of all
  shapes, in traversal order, are the rewritten links, and the tree with its links
  blanked is unchanged.
\<close>

theorem relink_rewrites_exactly_the_links:
  assumes "resolveLinks ''root'' outputPath tree = Inr linkToOutput"
  shows "map Link (allShapes (relink d linkToOutput))
           = map (\<lambda>s. rewrittenLink linkToOutput (Link s)) (allShapes d) \<and>
         eraseLinks (relink d linkToOutput) = eraseLinks d \<and>
         (linkToOutput k = Some v \<longrightarrow> rewrittenLink linkToOutput k = v) \<and>
         (linkToOutput k = None \<longrightarrow> rewrittenLink linkToOutput k = k)"
  using relink_links_aux[of linkToOutput d, OF resolved_map_empty_key[OF assms]]
    relink_frame_aux[of d linkToOutput]
  by (simp add: rewrittenLink_def)

theorem relink_rewrites_exactly_the_links_witness:
  "resolveLinks ''root'' ''diagrams/app.svg'' detailsTree
     = Inr (entriesMap (boardEntries ''root'' ''diagrams/app.svg'' detailsTree)) \<and>
   map Link (allShapes (relink detailsTree
       (entriesMap (boardEntries ''root'' ''diagrams/app.svg'' detailsTree))))
     = [''diagrams/app/details.svg'', ''https://d2lang.com'']"
proof -
  have r: "resolveLinks ''root'' ''diagrams/app.svg'' detailsTree
     = Inr (entriesMap (boardEntries ''root'' ''diagrams/app.svg'' detailsTree))"
    by (rule resolveLinks_entries_aux(1))
  show ?thesis
    using relink_rewrites_exactly_the_links[OF r, of detailsTree]
    by (simp add: r detailsTree_def leafBoard_def linkShape_def rewrittenLink_def entriesMap_def
        categoryBase_def nestPath_example)
qed

subsection \<open>The renderer, the document builders and the entry point\<close>

lemma nestPath_out:
  "nestPath ''out.svg'' ''index'' = ''out/index.svg''"
  "nestPath ''out.svg'' ''a'' = ''out/a.svg''"
  "nestPath ''out.svg'' ''b'' = ''out/b.svg''"
  "nestPath ''out.svg'' ''c'' = ''out/c.svg''"
  "filepath_Ext ''out.svg'' = ''.svg''"
  "filepath_Ext ''out/a.svg'' = ''.svg''"
  "filepath_Ext ''out/index.svg'' = ''.svg''"
  "filepath_Dir ''out/a.svg'' = ''out''"
  "filepath_Dir ''out/index.svg'' = ''out''"
  "strings_TrimSuffix ''out.svg'' ''.svg'' = ''out''"
  by (simp_all add: nestPath_def filepath_Ext_def strings_TrimSuffix_def strings_HasSuffix_def
      filepath_Join_def filepath_Clean_def filepath_Dir_def)

lemma render_parent_first:
  assumes "render env opts outputPath bundle forceAppendix diagram w = ((boards, None), w')"
    and "\<not> IsFolderOnly diagram"
  shows "\<exists>p0 p1 p2 p3 w0 b1 w1 b2 w2 b3 w3 out.
      render_children env opts p1 bundle forceAppendix (Layers diagram) [] w0 = ((b1, None), w1) \<and>
      render_children env opts p2 bundle forceAppendix (Scenarios diagram) b1 w1 = ((b2, None), w2) \<and>
      render_children env opts p3 bundle forceAppendix (Steps diagram) b2 w2 = ((b3, None), w3) \<and>
      render_board env opts p0 bundle forceAppendix diagram w3 = ((out, None), w') \<and>
      boards = out # b3 \<and> boards ! 0 = out"
proof (cases diagram)
  case (Diagram name folderOnly shapes fill layers scenarios steps)
  with assms(2) have nf: "\<not> folderOnly" by simp
  let ?stdout = "(0 < length layers \<or> 0 < length scenarios \<or> 0 < length steps) \<and>
       (if name \<noteq> [] then nestPath outputPath name else outputPath) = ''-''"
  show ?thesis
  proof (cases ?stdout)
    case True
    with assms(1) show ?thesis unfolding Diagram by (simp add: Let_def)
  next
    case False
    from assms(1) show ?thesis
      unfolding Diagram diagram.sel
      apply (simp only: render.simps Let_def False nf if_False not_False_eq_True if_True
          split: prod.splits option.splits)
      apply (simp_all only: prod.inject option.distinct list.inject simp_thms)
      apply (elim conjE)
      apply hypsubst
      apply (intro exI conjI)
           apply assumption
          apply assumption
         apply assumption
        apply assumption
       apply (rule refl)
      apply simp
      done
  qed
qed

lemma compile_default_written_iff:
  "res_written (compile_default env renderOpts animateInterval outputPath bundle forceAppendix diagram w)
     = (res_err (compile_default env renderOpts animateInterval outputPath bundle forceAppendix diagram w) = None)"
  by (simp add: compile_default_def compile_failed_def split: sum.splits prod.splits option.splits)

lemma compile_pdf_written_iff:
  "res_written (compile_pdf env renderOpts outputPath diagram w)
     = (res_err (compile_pdf env renderOpts outputPath diagram w) = None)"
  by (simp add: compile_pdf_def compile_failed_def split: sum.splits prod.splits option.splits)

lemma compile_pptx_written_iff:
  "res_written (compile_pptx env renderOpts outputPath diagram w)
     = (res_err (compile_pptx env renderOpts outputPath diagram w) = None)"
  by (simp add: compile_pptx_def compile_failed_def Let_def split: sum.splits prod.splits option.splits)

lemma compile_written_iff:
  "res_written (compile env renderOpts animateInterval inputPath outputPath bundle forceAppendix w)
     = (res_err (compile env renderOpts animateInterval inputPath outputPath bundle forceAppendix w) = None)"
  by (simp add: compile_def compile_failed_def compile_default_written_iff compile_pdf_written_iff
      compile_pptx_written_iff split: sum.splits prod.splits option.splits)

lemma compile_default_animated:
  "0 < animateInterval \<Longrightarrow>
   res_tree (compile_default env renderOpts animateInterval outputPath bundle forceAppendix diagram w) = Some diagram"
  by (simp add: compile_default_def compile_failed_def split: prod.splits option.splits)

lemma compile_pdf_tree: "res_tree (compile_pdf env renderOpts outputPath diagram w) = Some diagram"
  by (simp add: compile_pdf_def split: prod.splits option.splits)

lemma compile_pptx_tree: "res_tree (compile_pptx env renderOpts outputPath diagram w) = Some diagram"
  by (simp add: compile_pptx_def compile_failed_def Let_def split: prod.splits option.splits)

lemma compile_animated:
  "0 < animateInterval \<Longrightarrow>
   res_tree (compile env renderOpts animateInterval inputPath outputPath bundle forceAppendix w) = None \<or>
   res_tree (compile env renderOpts animateInterval inputPath outputPath bundle forceAppendix w)
     = Some (fst (d2lib_Compile env (fst (ReadPath env inputPath))))"
  by (simp add: compile_def compile_default_animated compile_pdf_tree compile_pptx_tree
      compile_failed_def split: prod.splits option.splits sum.splits)

lemma renderPDF_children_world:
  assumes "\<And>x p h bp w. x \<in> set dls \<Longrightarrow> snd (snd (renderPDF env opts p x (Some h) bp pm w)) = w"
  shows "snd (snd (renderPDF_children env opts dls pdf bp pm w)) = w"
  using assms
proof (induction dls arbitrary: pdf w)
  case Nil
  then show ?case by simp
next
  case (Cons dl dls)
  obtain svg e pdf' w' where r: "renderPDF env opts [] dl (Some pdf) bp pm w = ((svg, e), pdf', w')"
    by (metis surj_pair)
  have "w' = w" using Cons.prems[of dl "[]" pdf bp w] r by simp
  then show ?case
    using r Cons.IH[of pdf' w] Cons.prems by (simp split: option.splits)
qed

lemma renderPDF_unfold:
  assumes "(if \<not> folderOnly
            then renderPDF_page env opts (Diagram name folderOnly shapes fill layers scenarios steps)
                   (if name = [] then bp @ [getFileName outputPath] else bp @ [name]) pm
                   (case pdf0 of None \<Rightarrow> [] | Some handle \<Rightarrow> handle)
            else (([], None), (case pdf0 of None \<Rightarrow> [] | Some handle \<Rightarrow> handle)))
           = ((svg, e0), pdf1)"
    and "renderPDF_children env opts layers pdf1
           (if name = [] then bp @ [getFileName outputPath] else bp @ [name]) pm w = (e1, pdf2, w2)"
    and "renderPDF_children env opts scenarios pdf2
           (if name = [] then bp @ [getFileName outputPath] else bp @ [name]) pm w2 = (e2, pdf3, w3)"
    and "renderPDF_children env opts steps pdf3
           (if name = [] then bp @ [getFileName outputPath] else bp @ [name]) pm w3 = (e3, pdf4, w4)"
  shows "renderPDF env opts outputPath (Diagram name folderOnly shapes fill layers scenarios steps)
           pdf0 bp pm w =
     (case e0 of Some err \<Rightarrow> ((svg, Some err), pdf1, w) | None \<Rightarrow>
     (case e1 of Some err \<Rightarrow> (([], Some err), pdf2, w2) | None \<Rightarrow>
     (case e2 of Some err \<Rightarrow> (([], Some err), pdf3, w3) | None \<Rightarrow>
     (case e3 of Some err \<Rightarrow> (([], Some err), pdf4, w4) | None \<Rightarrow>
        if pdf0 = None then
          (case pdf_Export env outputPath pdf4 of
             (doc, Some err) \<Rightarrow>
               (([], Some err), pdf4, w4\<lparr>exportCalls := exportCalls w4 @ [outputPath]\<rparr>)
           | (doc, None) \<Rightarrow>
               ((svg, None), pdf4,
                w4\<lparr>exportCalls := exportCalls w4 @ [outputPath],
                   files := (files w4)(outputPath \<mapsto> doc)\<rparr>))
        else ((svg, None), pdf4, w4)))))"
  apply (simp only: renderPDF.simps Let_def assms prod.case)
  apply (cases e0; cases e1; cases e2; cases e3;
         simp only: option.case simp_thms prod.case if_True if_False refl)
  apply simp
  done



lemma renderPDF_inner_world:
  "snd (snd (renderPDF env opts p d (Some h) bp pm w)) = w"
proof (induction d arbitrary: p h bp w)
  case (Diagram name folderOnly shapes fill layers scenarios steps)
  let ?cbp = "if name = [] then bp @ [getFileName p] else bp @ [name]"
  have ch: "snd (snd (renderPDF_children env opts xs pdf bp' pm w)) = w"
    if "xs = layers \<or> xs = scenarios \<or> xs = steps" for xs pdf bp' w
    using that Diagram.IH by (auto intro!: renderPDF_children_world)
  obtain svg e0 pdf1 where r0: "(if \<not> folderOnly
            then renderPDF_page env opts (Diagram name folderOnly shapes fill layers scenarios steps)
                   ?cbp pm (case Some h of None \<Rightarrow> [] | Some handle \<Rightarrow> handle)
            else (([], None), (case Some h of None \<Rightarrow> [] | Some handle \<Rightarrow> handle)))
           = ((svg, e0), pdf1)"
    by (metis surj_pair)
  obtain e1 pdf2 w2 where c1: "renderPDF_children env opts layers pdf1 ?cbp pm w = (e1, pdf2, w2)"
    by (metis surj_pair)
  obtain e2 pdf3 w3 where c2: "renderPDF_children env opts scenarios pdf2 ?cbp pm w2 = (e2, pdf3, w3)"
    by (metis surj_pair)
  obtain e3 pdf4 w4 where c3: "renderPDF_children env opts steps pdf3 ?cbp pm w3 = (e3, pdf4, w4)"
    by (metis surj_pair)
  have w2: "w2 = w" using ch[of layers pdf1 ?cbp w] c1 by simp
  have w3: "w3 = w" using ch[of scenarios pdf2 ?cbp w2] c2 w2 by simp
  have w4: "w4 = w" using ch[of steps pdf3 ?cbp w3] c3 w3 by simp
  show ?case
    unfolding renderPDF_unfold[OF r0 c1 c2 c3]
    by (cases e0; cases e1; cases e2; cases e3) (simp_all add: w2 w3 w4)
qed

lemma renderPDF_children_world':
  "renderPDF_children env opts dls pdf bp pm w = (e, pdf', w') \<Longrightarrow> w' = w"
  using renderPDF_children_world[of dls env opts pm pdf bp w] renderPDF_inner_world by simp

lemma renderPDF_root:
  "renderPDF env opts outputPath d None bp pm w =
     (case renderPDF env opts outputPath d (Some []) bp pm w of
        ((svg, Some err), pdf, w') \<Rightarrow> ((svg, Some err), pdf, w)
      | ((svg, None), pdf, w') \<Rightarrow>
          (case pdf_Export env outputPath pdf of
             (doc, Some err) \<Rightarrow> (([], Some err), pdf, w\<lparr>exportCalls := exportCalls w @ [outputPath]\<rparr>)
           | (doc, None) \<Rightarrow>
               ((svg, None), pdf,
                w\<lparr>exportCalls := exportCalls w @ [outputPath], files := (files w)(outputPath \<mapsto> doc)\<rparr>)))"
proof (cases d)
  case (Diagram name folderOnly shapes fill layers scenarios steps)
  let ?cbp = "if name = [] then bp @ [getFileName outputPath] else bp @ [name]"
  obtain svg e0 pdf1 where r0: "(if \<not> folderOnly
            then renderPDF_page env opts (Diagram name folderOnly shapes fill layers scenarios steps)
                   ?cbp pm []
            else (([], None), [])) = ((svg, e0), pdf1)"
    by (metis surj_pair)
  obtain e1 pdf2 w2 where c1: "renderPDF_children env opts layers pdf1 ?cbp pm w = (e1, pdf2, w2)"
    by (metis surj_pair)
  obtain e2 pdf3 w3 where c2: "renderPDF_children env opts scenarios pdf2 ?cbp pm w2 = (e2, pdf3, w3)"
    by (metis surj_pair)
  obtain e3 pdf4 w4 where c3: "renderPDF_children env opts steps pdf3 ?cbp pm w3 = (e3, pdf4, w4)"
    by (metis surj_pair)
  have w2: "w2 = w" using c1 by (rule renderPDF_children_world')
  have w3: "w3 = w" using c2 w2 by (simp add: renderPDF_children_world')
  have w4: "w4 = w" using c3 w3 by (simp add: renderPDF_children_world')
  note n = renderPDF_unfold[where ?pdf0.0 = None and w = w, unfolded option.case, OF r0 c1 c2 c3]
  note s = renderPDF_unfold[where ?pdf0.0 = "Some []" and w = w, unfolded option.case, OF r0 c1 c2 c3]
  show ?thesis
    unfolding Diagram n s
    by (cases e0; cases e1; cases e2; cases e3) (simp_all add: w2 w3 w4 split: prod.splits option.splits)
qed

lemma render_board_bundling:
  assumes render: "d2svg_Render env diagram
             \<lparr>Pad = Pad opts, Sketch = Sketch opts, Center = Center opts, ThemeID = ThemeID opts,
              DarkThemeID = DarkThemeID opts, MasterID = MasterID opts,
              SetDimensions = (filepath_Ext outputPath = ''.png'')\<rparr> = (s0, None)"
    and post: "PostProcess env s0 = (s1, None)"
    and loc: "BundleLocal env s1 = (s2, eLocal)"
    and conv: "\<And>x. snd (ConvertSVG env x) = None"
    and exif: "\<And>x. snd (AddExif env x) = None"
    and master: "MasterID opts = []"
    and mkdir: "MkdirAll env (filepath_Dir outputPath) = None"
    and wfile: "\<And>p. WriteFile env outputPath p = None"
    and nostdout: "outputPath \<noteq> ''-''"
  shows "render_board env opts outputPath bundle forceAppendix diagram w =
     (let toPNG = (filepath_Ext outputPath = ''.png'');
          svg3 = (if bundle then fst (BundleRemote env s2) else s2);
          svg = (if forceAppendix \<and> \<not> toPNG then appendix_Append env diagram svg3 else svg3);
          svgB = (if bundle then appendix_Append env diagram svg
                  else fst (BundleRemote env (appendix_Append env diagram svg)));
          aggregate =
            (if bundle then multierr_Combine eLocal (snd (BundleRemote env s2))
             else if toPNG
               then multierr_Combine eLocal (snd (BundleRemote env (appendix_Append env diagram svg)))
             else eLocal);
          out = (if toPNG then fst (AddExif env (fst (ConvertSVG env svgB))) else lineTerminated svg)
      in ((svg, aggregate), w\<lparr>files := (files w)(outputPath \<mapsto> out)\<rparr>))"
proof -
  have c: "ConvertSVG env x = (fst (ConvertSVG env x), None)" for x
    using conv[of x] by (cases "ConvertSVG env x") simp
  have e: "AddExif env x = (fst (AddExif env x), None)" for x
    using exif[of x] by (cases "AddExif env x") simp
  have wr: "render_board_write env opts outputPath svg out agg w =
      ((svg, agg), w\<lparr>files := (files w)(outputPath \<mapsto> out)\<rparr>)" for svg out agg
    by (simp add: render_board_write_def master mkdir WritePath_def wfile nostdout)
  show ?thesis
    using render post loc
    by (simp add: render_board_def Let_def case_prod_beta conv exif wr lineTerminated_def)
qed

lemma renderPDF_page_bundling:
  assumes "d2svg_Render env
             (Diagram (Name diagram) (IsFolderOnly diagram) (Shapes diagram) ''transparent''
                (Layers diagram) (Scenarios diagram) (Steps diagram))
             \<lparr>Pad = Pad opts, Sketch = Sketch opts, Center = Center opts, ThemeID = 0,
              DarkThemeID = None, MasterID = [], SetDimensions = True\<rparr> = (s0, None)"
    and "PostProcess env s0 = (s1, None)"
    and "BundleLocal env s1 = (s2, eLocal)"
    and "BundleRemote env s2 = (s3, eRemote)"
    and "multierr_Combine eLocal eRemote \<noteq> None"
  shows "renderPDF_page env opts diagram currBoardPath pageMap pdf =
           ((s3, multierr_Combine eLocal eRemote), pdf)"
  using assms by (simp add: renderPDF_page_def Let_def)

lemma testEnv_sel:
  "ReadPath (testEnv tree failing localErr remoteErr) = (\<lambda>p. (''source'', None))"
  "NewRuler (testEnv tree failing localErr remoteErr) = None"
  "d2lib_Compile (testEnv tree failing localErr remoteErr) = (\<lambda>input. (tree, None))"
  "HashID (testEnv tree failing localErr remoteErr) = (\<lambda>d. (''master'', None))"
  "plugin_Info (testEnv tree failing localErr remoteErr) = None"
  "FeatureSupportCheck (testEnv tree failing localErr remoteErr) = (\<lambda>input. None)"
  "d2svg_Render (testEnv tree failing localErr remoteErr) =
     (\<lambda>d opts. if failing d then ([], Some (Error ''render failed''))
               else (''<svg>'' @ Name d @ ''</svg>'', None))"
  "PostProcess (testEnv tree failing localErr remoteErr) = (\<lambda>svg. (svg, None))"
  "BundleLocal (testEnv tree failing localErr remoteErr) = (\<lambda>svg. (svg, localErr))"
  "BundleRemote (testEnv tree failing localErr remoteErr) = (\<lambda>svg. (svg, remoteErr))"
  "appendix_Append (testEnv tree failing localErr remoteErr) = (\<lambda>d svg. svg @ ''<!--appendix-->'')"
  "ConvertSVG (testEnv tree failing localErr remoteErr) = (\<lambda>svg. (''PNG'' @ svg, None))"
  "AddExif (testEnv tree failing localErr remoteErr) = (\<lambda>png. (png, None))"
  "d2animate_Wrap (testEnv tree failing localErr remoteErr) = (\<lambda>d boards opts interval. (concat boards, None))"
  "MkdirAll (testEnv tree failing localErr remoteErr) = (\<lambda>dir. None)"
  "WriteFile (testEnv tree failing localErr remoteErr) = (\<lambda>fp p. None)"
  "FindViewboxSlice (testEnv tree failing localErr remoteErr) = (\<lambda>svg. [''0'', ''0'', ''100'', ''100''])"
  "ParseFloat (testEnv tree failing localErr remoteErr) = (\<lambda>s. None)"
  "AddPDFPage (testEnv tree failing localErr remoteErr) = (\<lambda>page. None)"
  "pdf_Export (testEnv tree failing localErr remoteErr) = (\<lambda>fp pages. (concat (map page_pngImg pages), None))"
  "AddSlide (testEnv tree failing localErr remoteErr) = (\<lambda>img boardPath. None)"
  "SaveTo (testEnv tree failing localErr remoteErr) = (\<lambda>fp slides. (concat (map slide_pngImg slides), None))"
  by (simp_all add: testEnv_def)

lemma path_examples:
  "filepath_Ext ''out.pdf'' = ''.pdf''"
  "filepath_Ext ''out.pptx'' = ''.pptx''"
  "getFileName ''out.pdf'' = ''out''"
  "getFileName ''out.pptx'' = ''out''"
  "filepath_Ext ''diagrams/app.svg'' = ''.svg''"
  "filepath_Dir ''diagrams/app.svg'' = ''diagrams''"
  "filepath_Dir ''out.svg'' = ''.''"
  "filepath_Ext ''out/b.svg'' = ''.svg''"
  "filepath_Ext ''out/c.svg'' = ''.svg''"
  "filepath_Dir ''out/b.svg'' = ''out''"
  "filepath_Dir ''out/c.svg'' = ''out''"
  by (simp_all add: filepath_Ext_def getFileName_def filepath_Base_def strings_TrimSuffix_def
      strings_HasSuffix_def filepath_Dir_def filepath_Clean_def)

subsection \<open>Partial failure\<close>

text \<open>
  Claim C5, at the input where the code departs from it. The root has the layers
  \<^verbatim>\<open>a\<close>, \<^verbatim>\<open>b\<close> and \<^verbatim>\<open>c\<close>, the output path is \<^verbatim>\<open>out.svg\<close>, and rendering
  fails for \<^verbatim>\<open>b\<close> after \<^verbatim>\<open>a\<close> was rendered and written to \<^verbatim>\<open>out/a.svg\<close>:
  \<^verbatim>\<open>compile\<close> returns the error of \<^verbatim>\<open>b\<close> and the file of \<^verbatim>\<open>a\<close> is on disk
  as written, but the boolean \<^verbatim>\<open>written\<close> is false, where the claim says true. (The
  lemma \<open>compile_written_iff\<close> above: \<^verbatim>\<open>written\<close> is true exactly when the error is
  nil, on every input.)
\<close>

theorem compile_partial_failure_reports_not_written:
  "res_err (compile (testEnv threeLayers (\<lambda>d. Name d = ''b'') None None) testOpts 0
             ''in.d2'' ''out.svg'' False False emptyWorld) = Some (Error ''render failed'') \<and>
   res_written (compile (testEnv threeLayers (\<lambda>d. Name d = ''b'') None None) testOpts 0
             ''in.d2'' ''out.svg'' False False emptyWorld) = False \<and>
   files (res_world (compile (testEnv threeLayers (\<lambda>d. Name d = ''b'') None None) testOpts 0
             ''in.d2'' ''out.svg'' False False emptyWorld)) ''out/a.svg''
     = Some (''<svg>a</svg>'' @ [CHR 0x0A])"
  by (simp add: compile_def compile_default_def compile_failed_def threeLayers_def leafBoard_def
      testEnv_sel testOpts_def emptyWorld_def render_board_def render_board_write_def
      WritePath_def os_RemoveAll_def nestPath_out Let_def)

subsection \<open>Export of paginated documents\<close>

text \<open>
  Claim C6. A call of \<^verbatim>\<open>renderPDF\<close> that gets a document handle (every recursive
  call) leaves the world as it is: it never exports and writes no file. The outermost
  call (nil handle) does what the traversal with a fresh document does and then, only
  when the traversal returned no error, calls \<^verbatim>\<open>pdf.Export\<close> once, with the document
  of the whole traversal; when the traversal returned an error, the world is unchanged:
  no export, no file. For a slide deck, \<^verbatim>\<open>compile\<close> calls \<^verbatim>\<open>SaveTo\<close> once after
  \<^verbatim>\<open>renderPPTX\<close> returned no error, and leaves the world unchanged when it returned
  one.
\<close>

theorem paginated_export_once_after_traversal:
  "snd (snd (renderPDF env opts anyPath diagram (Some handle) boardPath pageMap w)) = w \<and>
   renderPDF env opts outputPath diagram None boardPath pageMap w =
     (case renderPDF env opts outputPath diagram (Some []) boardPath pageMap w of
        ((svg, Some err), pdf, w') \<Rightarrow> ((svg, Some err), pdf, w)
      | ((svg, None), pdf, w') \<Rightarrow>
          (case pdf_Export env outputPath pdf of
             (doc, Some err) \<Rightarrow>
               (([], Some err), pdf, w\<lparr>exportCalls := exportCalls w @ [outputPath]\<rparr>)
           | (doc, None) \<Rightarrow>
               ((svg, None), pdf,
                w\<lparr>exportCalls := exportCalls w @ [outputPath],
                  files := (files w)(outputPath \<mapsto> doc)\<rparr>))) \<and>
   res_world (compile_pptx env opts outputPath diagram w) =
     (case renderPPTX env [] opts outputPath diagram [] (buildBoardIdToIndex diagram None []) of
        ((svg, Some err), presentation) \<Rightarrow> w
      | ((svg, None), presentation) \<Rightarrow>
          (case SaveTo env outputPath presentation of
             (doc, Some err) \<Rightarrow> w\<lparr>exportCalls := exportCalls w @ [outputPath]\<rparr>
           | (doc, None) \<Rightarrow>
               w\<lparr>exportCalls := exportCalls w @ [outputPath],
                 files := (files w)(outputPath \<mapsto> doc)\<rparr>))"
proof -
  have "res_world (compile_pptx env opts outputPath diagram w) =
     (case renderPPTX env [] opts outputPath diagram [] (buildBoardIdToIndex diagram None []) of
        ((svg, Some err), presentation) \<Rightarrow> w
      | ((svg, None), presentation) \<Rightarrow>
          (case SaveTo env outputPath presentation of
             (doc, Some err) \<Rightarrow> w\<lparr>exportCalls := exportCalls w @ [outputPath]\<rparr>
           | (doc, None) \<Rightarrow>
               w\<lparr>exportCalls := exportCalls w @ [outputPath],
                 files := (files w)(outputPath \<mapsto> doc)\<rparr>))"
    by (simp add: compile_pptx_def compile_failed_def Let_def split: prod.splits option.splits)
  then show ?thesis
    using renderPDF_inner_world[of env opts anyPath diagram handle boardPath pageMap w]
      renderPDF_root[of env opts outputPath diagram boardPath pageMap w]
    by (simp only: simp_thms)
qed


text \<open>
  The tree with the layers \<^verbatim>\<open>a\<close>, \<^verbatim>\<open>b\<close>, \<^verbatim>\<open>c\<close> and the output path
  \<^verbatim>\<open>out.pdf\<close>: when rendering \<^verbatim>\<open>b\<close> fails the world is unchanged; when every board
  renders there is one export, of the four pages in traversal order.
\<close>

theorem paginated_export_once_after_traversal_witness:
  "snd (snd (renderPDF (testEnv threeLayers (\<lambda>d. Name d = ''b'') None None) testOpts ''out.pdf''
               threeLayers None [] Map.empty emptyWorld)) = emptyWorld \<and>
   exportCalls (snd (snd (renderPDF (testEnv threeLayers (\<lambda>d. False) None None) testOpts ''out.pdf''
               threeLayers None [] Map.empty emptyWorld))) = [''out.pdf''] \<and>
   files (snd (snd (renderPDF (testEnv threeLayers (\<lambda>d. False) None None) testOpts ''out.pdf''
               threeLayers None [] Map.empty emptyWorld))) ''out.pdf''
     = Some ''PNG<svg></svg><!--appendix-->PNG<svg>a</svg><!--appendix-->PNG<svg>b</svg><!--appendix-->PNG<svg>c</svg><!--appendix-->''"
proof -
  have bad: "renderPDF (testEnv threeLayers (\<lambda>d. Name d = ''b'') None None) testOpts ''out.pdf''
               threeLayers (Some []) [] Map.empty emptyWorld
             = (([], Some (Error ''render failed'')),
                fst (snd (renderPDF (testEnv threeLayers (\<lambda>d. Name d = ''b'') None None) testOpts
                  ''out.pdf'' threeLayers (Some []) [] Map.empty emptyWorld)), emptyWorld)"
    by (simp add: threeLayers_def leafBoard_def testEnv_sel testOpts_def renderPDF_page_def
        multierr_Combine_def Let_def path_examples)
  have good: "fst (renderPDF (testEnv threeLayers (\<lambda>d. False) None None) testOpts ''out.pdf''
               threeLayers (Some []) [] Map.empty emptyWorld) = (''<svg></svg>'', None) \<and>
      map page_pngImg (fst (snd (renderPDF (testEnv threeLayers (\<lambda>d. False) None None) testOpts ''out.pdf''
               threeLayers (Some []) [] Map.empty emptyWorld)))
        = [''PNG<svg></svg><!--appendix-->'', ''PNG<svg>a</svg><!--appendix-->'',
           ''PNG<svg>b</svg><!--appendix-->'', ''PNG<svg>c</svg><!--appendix-->'']"
    by (simp add: threeLayers_def leafBoard_def testEnv_sel testOpts_def renderPDF_page_def
        multierr_Combine_def Let_def path_examples)
  note b = paginated_export_once_after_traversal[of "testEnv threeLayers (\<lambda>d. Name d = ''b'') None None"
        testOpts "[]" threeLayers "[]" "[]" Map.empty emptyWorld "''out.pdf''",
        THEN conjunct2, THEN conjunct1]
  note g = paginated_export_once_after_traversal[of "testEnv threeLayers (\<lambda>d. False) None None"
        testOpts "[]" threeLayers "[]" "[]" Map.empty emptyWorld "''out.pdf''",
        THEN conjunct2, THEN conjunct1]
  have 1: "snd (snd (renderPDF (testEnv threeLayers (\<lambda>d. Name d = ''b'') None None) testOpts ''out.pdf''
               threeLayers None [] Map.empty emptyWorld)) = emptyWorld"
    by (subst b, subst bad) simp
  have 2: "snd (snd (renderPDF (testEnv threeLayers (\<lambda>d. False) None None) testOpts ''out.pdf''
               threeLayers None [] Map.empty emptyWorld))
        = emptyWorld\<lparr>exportCalls := exportCalls emptyWorld @ [''out.pdf''],
             files := (files emptyWorld)(''out.pdf'' \<mapsto>
               concat (map page_pngImg (fst (snd (renderPDF (testEnv threeLayers (\<lambda>d. False) None None)
                 testOpts ''out.pdf'' threeLayers (Some []) [] Map.empty emptyWorld)))))\<rparr>"
  proof -
    let ?R = "renderPDF (testEnv threeLayers (\<lambda>d. False) None None) testOpts ''out.pdf''
               threeLayers (Some []) [] Map.empty emptyWorld"
    have goodeq: "?R = ((''<svg></svg>'', None), fst (snd ?R), snd (snd ?R))"
      using good by (simp add: prod_eq_iff)
    show ?thesis
      by (subst g, subst goodeq) (simp add: testEnv_sel case_prod_beta)
  qed
  show ?thesis
    unfolding 2 using 1 good by (simp add: emptyWorld_def)
qed

subsection \<open>Order of the rendered buffers\<close>

text \<open>
  Claim C7, as stated, at a folder-only root with the layer \<^verbatim>\<open>a\<close>: \<^verbatim>\<open>render\<close>
  succeeds and writes \<^verbatim>\<open>out/a.svg\<close>, and the sequence it returns is empty, so no
  buffer of the root is at index 0.
\<close>

theorem render_folder_only_root_counterexample:
  "fst (render (testEnv folderRoot (\<lambda>d. False) None None) testOpts ''out.svg'' False False
          folderRoot emptyWorld) = ([], None) \<and>
   files (snd (render (testEnv folderRoot (\<lambda>d. False) None None) testOpts ''out.svg'' False False
          folderRoot emptyWorld)) ''out/a.svg'' = Some (''<svg>a</svg>'' @ [CHR 0x0A])"
  by (simp add: folderRoot_def leafBoard_def testEnv_sel testOpts_def emptyWorld_def
      render_board_def render_board_write_def WritePath_def os_RemoveAll_def nestPath_out Let_def)

text \<open>
  Claim C7, amended. For every board that is not folder-only, when \<^verbatim>\<open>render\<close>
  succeeds, the loops over the layers, the scenarios and the steps have run to their
  end, in this order and without error, before the board itself is rendered (in the
  world they leave), and the sequence returned is the board's buffer followed by the
  buffers accumulated by the three loops: the board's bytes are at index 0.
\<close>

theorem render_parent_buffer_first:
  assumes "render env opts outputPath bundle forceAppendix diagram w = ((boards, None), w')"
    and "\<not> IsFolderOnly diagram"
  shows "\<exists>p0 p1 p2 p3 w0 b1 w1 b2 w2 b3 w3 out.
      render_children env opts p1 bundle forceAppendix (Layers diagram) [] w0 = ((b1, None), w1) \<and>
      render_children env opts p2 bundle forceAppendix (Scenarios diagram) b1 w1 = ((b2, None), w2) \<and>
      render_children env opts p3 bundle forceAppendix (Steps diagram) b2 w2 = ((b3, None), w3) \<and>
      render_board env opts p0 bundle forceAppendix diagram w3 = ((out, None), w') \<and>
      boards = out # b3 \<and> boards ! 0 = out"
  using render_parent_first[OF assms] .

theorem render_parent_buffer_first_witness:
  "\<not> IsFolderOnly threeLayers \<and>
   fst (render (testEnv threeLayers (\<lambda>d. False) None None) testOpts ''out.svg'' False False
          threeLayers emptyWorld)
     = ([''<svg></svg>'', ''<svg>a</svg>'', ''<svg>b</svg>'', ''<svg>c</svg>''], None) \<and>
   (\<exists>p0 w3 out b3.
      fst (render_board (testEnv threeLayers (\<lambda>d. False) None None) testOpts p0 False False
             threeLayers w3) = (out, None) \<and>
      [''<svg></svg>'', ''<svg>a</svg>'', ''<svg>b</svg>'', ''<svg>c</svg>''] = out # b3)"
proof -
  let ?r = "render (testEnv threeLayers (\<lambda>d. False) None None) testOpts ''out.svg'' False False
          threeLayers emptyWorld"
  have f: "fst ?r = ([''<svg></svg>'', ''<svg>a</svg>'', ''<svg>b</svg>'', ''<svg>c</svg>''], None)"
    by (simp add: threeLayers_def leafBoard_def testEnv_sel testOpts_def emptyWorld_def
      render_board_def render_board_write_def WritePath_def os_RemoveAll_def nestPath_out
      path_examples Let_def)
  then have r: "?r = (([''<svg></svg>'', ''<svg>a</svg>'', ''<svg>b</svg>'', ''<svg>c</svg>''], None), snd ?r)"
    by (simp add: prod_eq_iff)
  have nf: "\<not> IsFolderOnly threeLayers" by (simp add: threeLayers_def)
  from render_parent_buffer_first[OF r nf] obtain p0 w3 out b3 where
    "render_board (testEnv threeLayers (\<lambda>d. False) None None) testOpts p0 False False threeLayers w3
       = ((out, None), snd ?r)"
    "[''<svg></svg>'', ''<svg>a</svg>'', ''<svg>b</svg>'', ''<svg>c</svg>''] = out # b3"
    by blast
  then have "\<exists>p0 w3 out b3.
      fst (render_board (testEnv threeLayers (\<lambda>d. False) None None) testOpts p0 False False
             threeLayers w3) = (out, None) \<and>
      [''<svg></svg>'', ''<svg>a</svg>'', ''<svg>b</svg>'', ''<svg>c</svg>''] = out # b3"
    by (metis fst_conv)
  with f nf show ?thesis by blast
qed


subsection \<open>Bundling errors\<close>

text \<open>
  Claim C8. In \<^verbatim>\<open>_render\<close>, when rendering, post-processing, rasterising and writing
  succeed, the result is the rendered bytes together with the aggregate of the bundling
  errors (the local one, combined with the remote one when remote bundling runs), and
  the bytes have been written to the output path. In the page block of
  \<^verbatim>\<open>renderPDF\<close>, a non-nil aggregate of the local and the remote bundling error is
  returned together with the bundled bytes.
\<close>

theorem bundling_errors_do_not_block:
  assumes "d2svg_Render env diagram
             \<lparr>Pad = Pad opts, Sketch = Sketch opts, Center = Center opts, ThemeID = ThemeID opts,
              DarkThemeID = DarkThemeID opts, MasterID = MasterID opts,
              SetDimensions = (filepath_Ext outputPath = ''.png'')\<rparr> = (s0, None)"
    and "PostProcess env s0 = (s1, None)"
    and "BundleLocal env s1 = (s2, eLocal)"
    and "\<And>x. snd (ConvertSVG env x) = None"
    and "\<And>x. snd (AddExif env x) = None"
    and "MasterID opts = []"
    and "MkdirAll env (filepath_Dir outputPath) = None"
    and "\<And>p. WriteFile env outputPath p = None"
    and "outputPath \<noteq> ''-''"
    and "d2svg_Render env
             (Diagram (Name diagram) (IsFolderOnly diagram) (Shapes diagram) ''transparent''
                (Layers diagram) (Scenarios diagram) (Steps diagram))
             \<lparr>Pad = Pad opts, Sketch = Sketch opts, Center = Center opts, ThemeID = 0,
              DarkThemeID = None, MasterID = [], SetDimensions = True\<rparr> = (p0, None)"
    and "PostProcess env p0 = (p1, None)"
    and "BundleLocal env p1 = (p2, pLocal)"
    and "BundleRemote env p2 = (p3, pRemote)"
    and "multierr_Combine pLocal pRemote \<noteq> None"
  shows "render_board env opts outputPath bundle forceAppendix diagram w =
     (let toPNG = (filepath_Ext outputPath = ''.png'');
          svg3 = (if bundle then fst (BundleRemote env s2) else s2);
          svg = (if forceAppendix \<and> \<not> toPNG then appendix_Append env diagram svg3 else svg3);
          svgB = (if bundle then appendix_Append env diagram svg
                  else fst (BundleRemote env (appendix_Append env diagram svg)));
          aggregate =
            (if bundle then multierr_Combine eLocal (snd (BundleRemote env s2))
             else if toPNG
               then multierr_Combine eLocal (snd (BundleRemote env (appendix_Append env diagram svg)))
             else eLocal);
          out = (if toPNG then fst (AddExif env (fst (ConvertSVG env svgB))) else lineTerminated svg)
      in ((svg, aggregate), w\<lparr>files := (files w)(outputPath \<mapsto> out)\<rparr>)) \<and>
     renderPDF_page env opts diagram currBoardPath pageMap pdf =
       ((p3, multierr_Combine pLocal pRemote), pdf)"
  using render_board_bundling[OF assms(1-9)] renderPDF_page_bundling[OF assms(10-14)]
  by (simp only: simp_thms)

theorem bundling_errors_do_not_block_witness:
  "render_board (testEnv threeLayers (\<lambda>d. False) (Some (Error ''local'')) (Some (Error ''remote'')))
      testOpts ''out.svg'' True False (leafBoard ''a'') emptyWorld
     = ((''<svg>a</svg>'', Some (MultiError [Error ''local'', Error ''remote''])),
        emptyWorld\<lparr>files := (files emptyWorld)(''out.svg'' \<mapsto> ''<svg>a</svg>'' @ [CHR 0x0A])\<rparr>) \<and>
   renderPDF_page (testEnv threeLayers (\<lambda>d. False) (Some (Error ''local'')) (Some (Error ''remote'')))
      testOpts (leafBoard ''a'') [''out'', ''a''] Map.empty []
     = ((''<svg>a</svg>'', Some (MultiError [Error ''local'', Error ''remote''])), [])"
  using bundling_errors_do_not_block[of
      "testEnv threeLayers (\<lambda>d. False) (Some (Error ''local'')) (Some (Error ''remote''))"
      "leafBoard ''a''" testOpts "''out.svg''" "''<svg>a</svg>''" "''<svg>a</svg>''"
      "''<svg>a</svg>''" "Some (Error ''local'')" "''<svg>a</svg>''" "''<svg>a</svg>''"
      "''<svg>a</svg>''" "Some (Error ''local'')" "''<svg>a</svg>''" "Some (Error ''remote'')"
      True False emptyWorld "[''out'', ''a'']" Map.empty "[]"]
  by (simp add: testEnv_sel testOpts_def leafBoard_def nestPath_out multierr_Combine_def
      lineTerminated_def)

subsection \<open>Animated output\<close>

text \<open>
  Claim C9. With an animation interval greater than zero, the arm of \<^verbatim>\<open>compile\<close> for
  vector images renders the board tree as it was compiled, and hands the same tree to
  \<^verbatim>\<open>d2animate.Wrap\<close>: no link is resolved or rewritten. Whatever the output format,
  the tree that \<^verbatim>\<open>compile\<close> hands to a renderer, if it gets that far, is the tree
  returned by the compiler.
\<close>

theorem compile_animated_skips_relinking:
  assumes "0 < animateInterval"
  shows "compile_default env renderOpts animateInterval outputPath bundle forceAppendix diagram w =
       (case render env renderOpts outputPath bundle forceAppendix diagram w of
          ((boards, Some err), w1) \<Rightarrow> compile_failed (Some err) w1 (Some diagram)
        | ((boards, None), w1) \<Rightarrow>
            if length boards > 0 then
              (case d2animate_Wrap env diagram boards renderOpts animateInterval of
                 (out, Some err) \<Rightarrow> compile_failed (Some err) w1 (Some diagram)
               | (out, None) \<Rightarrow>
                   (case MkdirAll env (filepath_Dir outputPath) of
                      Some err \<Rightarrow> compile_failed (Some err) w1 (Some diagram)
                    | None \<Rightarrow>
                        (case WritePath env outputPath out w1 of
                           (Some err, w2) \<Rightarrow> compile_failed (Some err) w2 (Some diagram)
                         | (None, w2) \<Rightarrow>
                             \<lparr>res_out = out, res_written = True, res_err = None,
                              res_world = w2, res_tree = Some diagram\<rparr>)))
            else \<lparr>res_out = [], res_written = True, res_err = None, res_world = w1,
                  res_tree = Some diagram\<rparr>) \<and>
     res_tree (compile_default env renderOpts animateInterval outputPath bundle forceAppendix
                 diagram w) = Some diagram \<and>
     (res_tree (compile env renderOpts animateInterval inputPath outputPath bundle forceAppendix w)
        = None \<or>
      res_tree (compile env renderOpts animateInterval inputPath outputPath bundle forceAppendix w)
        = Some (fst (d2lib_Compile env (fst (ReadPath env inputPath)))))"
proof -
  have "compile_default env renderOpts animateInterval outputPath bundle forceAppendix diagram w =
       (case render env renderOpts outputPath bundle forceAppendix diagram w of
          ((boards, Some err), w1) \<Rightarrow> compile_failed (Some err) w1 (Some diagram)
        | ((boards, None), w1) \<Rightarrow>
            if length boards > 0 then
              (case d2animate_Wrap env diagram boards renderOpts animateInterval of
                 (out, Some err) \<Rightarrow> compile_failed (Some err) w1 (Some diagram)
               | (out, None) \<Rightarrow>
                   (case MkdirAll env (filepath_Dir outputPath) of
                      Some err \<Rightarrow> compile_failed (Some err) w1 (Some diagram)
                    | None \<Rightarrow>
                        (case WritePath env outputPath out w1 of
                           (Some err, w2) \<Rightarrow> compile_failed (Some err) w2 (Some diagram)
                         | (None, w2) \<Rightarrow>
                             \<lparr>res_out = out, res_written = True, res_err = None,
                              res_world = w2, res_tree = Some diagram\<rparr>)))
            else \<lparr>res_out = [], res_written = True, res_err = None, res_world = w1,
                  res_tree = Some diagram\<rparr>)"
    using assms by (simp add: compile_default_def split: prod.splits option.splits)
  then show ?thesis
    using compile_default_animated[OF assms, of env renderOpts outputPath "bundle" forceAppendix diagram w]
      compile_animated[OF assms, of env renderOpts inputPath outputPath "bundle" forceAppendix w]
    by (simp only: simp_thms)
qed

theorem compile_animated_skips_relinking_witness:
  "(0::int) < 1000 \<and>
   res_tree (compile (testEnv detailsTree (\<lambda>d. False) None None) testOpts 1000 ''in.d2''
               ''diagrams/app.svg'' False False emptyWorld) = Some detailsTree \<and>
   map Link (Shapes detailsTree) = [''root.layers.details'', ''https://d2lang.com'']"
proof -
  have pos: "(0::int) < 1000" by simp
  have n: "res_tree (compile (testEnv detailsTree (\<lambda>d. False) None None) testOpts 1000 ''in.d2''
               ''diagrams/app.svg'' False False emptyWorld) \<noteq> None"
    by (simp add: compile_def testEnv_sel path_examples compile_default_animated)
  have c: "fst (d2lib_Compile (testEnv detailsTree (\<lambda>d. False) None None)
             (fst (ReadPath (testEnv detailsTree (\<lambda>d. False) None None) ''in.d2''))) = detailsTree"
    by (simp add: testEnv_sel)
  have t: "res_tree (compile (testEnv detailsTree (\<lambda>d. False) None None) testOpts 1000 ''in.d2''
               ''diagrams/app.svg'' False False emptyWorld) = Some detailsTree"
    using compile_animated_skips_relinking[OF pos, of "testEnv detailsTree (\<lambda>d. False) None None"
        testOpts "''diagrams/app.svg''" False False detailsTree emptyWorld "''in.d2''",
        THEN conjunct2, THEN conjunct2] n
    unfolding c by blast
  have l: "map Link (Shapes detailsTree) = [''root.layers.details'', ''https://d2lang.com'']"
    by (simp add: detailsTree_def linkShape_def)
  from pos t l show ?thesis by blast
qed

lemma compile_static_relinks:
  "animateInterval \<le> 0 \<Longrightarrow>
   res_tree (compile_default env renderOpts animateInterval outputPath bundle forceAppendix diagram w)
     = Some (relink diagram (entriesMap (boardEntries ''root'' outputPath diagram)))"
  by (simp add: compile_default_def compile_failed_def resolveLinks_entries_aux(1)
      split: prod.splits option.splits)

end
